theory Spec2Isabelle
  imports Main
begin

section \<open>Python string operations used by the diagram pipeline\<close>

text \<open>
  A Python \<open>str\<close> is modelled as a \<open>string\<close> whose characters are the code points
  0..255. On this range the definitions below follow CPython: \<open>str.isspace\<close>,
  \<open>str.strip\<close>, \<open>str.lower\<close>, \<open>str.startswith\<close>, \<open>str.split('\n')\<close>,
  \<open>str.splitlines\<close> and \<open>str.join\<close>. Code points above 255 are outside the model.
\<close>

definition LF :: char where "LF = CHR 0x0A"
definition CR :: char where "CR = CHR 0x0D"

text \<open>\<open>str.isspace\<close> on one code point: TAB, LF, VT, FF, CR, FS, GS, RS, US, space, NEL, NBSP.\<close>

definition is_space :: "char \<Rightarrow> bool" where
  "is_space c = (of_char c \<in> set [9, 10, 11, 12, 13, 28, 29, 30, 31, 32, 133, 160 :: nat])"

definition lstrip :: "string \<Rightarrow> string" where
  "lstrip s = dropWhile is_space s"

definition rstrip :: "string \<Rightarrow> string" where
  "rstrip s = rev (dropWhile is_space (rev s))"

definition strip :: "string \<Rightarrow> string" where
  "strip s = rstrip (lstrip s)"

text \<open>\<open>str.lower\<close>: the upper-case letters below 256 are A-Z and the Latin-1 letters
  0xC0-0xDE without the multiplication sign 0xD7; each is 32 below its lower-case form.\<close>

definition is_upper :: "char \<Rightarrow> bool" where
  "is_upper c = (let n = (of_char c :: nat) in
     (65 \<le> n \<and> n \<le> 90) \<or> (192 \<le> n \<and> n \<le> 222 \<and> n \<noteq> 215))"

definition lower_char :: "char \<Rightarrow> char" where
  "lower_char c = (if is_upper c then char_of (of_char c + (32 :: nat)) else c)"

definition lower :: "string \<Rightarrow> string" where
  "lower s = map lower_char s"

definition startswith :: "string \<Rightarrow> string \<Rightarrow> bool" where
  "startswith s p = (take (length p) s = p)"

text \<open>\<open>s.split('\n')\<close>: splits at every LF and always returns at least one piece.\<close>

fun split_nl :: "string \<Rightarrow> string list" where
  "split_nl [] = [[]]"
| "split_nl (c # cs) =
     (if c = LF then [] # split_nl cs
      else (case split_nl cs of [] \<Rightarrow> [[c]] | l # ls \<Rightarrow> (c # l) # ls))"

text \<open>\<open>str.splitlines\<close>: line boundaries are LF, CR, CR LF, VT, FF, FS, GS, RS and NEL;
  the empty string has no lines and a final line boundary opens no further line.\<close>

definition is_linebreak :: "char \<Rightarrow> bool" where
  "is_linebreak c = (of_char c \<in> set [10, 11, 12, 13, 28, 29, 30, 133 :: nat])"

fun splitlines_from :: "string \<Rightarrow> string \<Rightarrow> string list" where
  "splitlines_from acc [] = (if acc = [] then [] else [rev acc])"
| "splitlines_from acc (c # cs) =
     (if c = CR then
        (case cs of
           [] \<Rightarrow> [rev acc]
         | d # ds \<Rightarrow> if d = LF then rev acc # splitlines_from [] ds
                    else rev acc # splitlines_from [] (d # ds))
      else if is_linebreak c then rev acc # splitlines_from [] cs
      else splitlines_from (c # acc) cs)"

definition splitlines :: "string \<Rightarrow> string list" where
  "splitlines s = splitlines_from [] s"

fun join :: "string \<Rightarrow> string list \<Rightarrow> string" where
  "join sep [] = []"
| "join sep [x] = x"
| "join sep (x # y # ys) = x @ sep @ join sep (y # ys)"

section \<open>Exceptions and artifacts\<close>

text \<open>
  The exceptions the endpoint distinguishes: FastAPI's \<open>HTTPException(status_code, detail)\<close>,
  \<open>ValueError\<close> (with its subclasses) and every other exception class; the last two carry
  the text that \<open>str(exc)\<close> returns.
\<close>

datatype exn = HTTPException nat string | ValueError string | OtherException string

record artifact =
  art_type :: string
  art_code :: string

section \<open>The classifier \<open>clean_mermaid_code\<close>\<close>

definition clean_mermaid_code :: "string \<Rightarrow> exn + artifact" where
  "clean_mermaid_code text =
     (let code = strip text in
      case split_nl code of
        [] \<Rightarrow> Inl (OtherException ''list index out of range'')
      | l # _ \<Rightarrow>
          (let start = lower (strip l) in
           if startswith start ''graph'' \<or> startswith start ''flowchart''
             then Inr \<lparr>art_type = ''flowchart'', art_code = code\<rparr>
           else if startswith start ''sequencediagram''
             then Inr \<lparr>art_type = ''sequenceDiagram'', art_code = code\<rparr>
           else if startswith start ''classdiagram''
             then Inr \<lparr>art_type = ''classDiagram'', art_code = code\<rparr>
           else Inl (ValueError ''Invalid mermaid code'')))"

section \<open>Diagram type resolution (\<open>MERMAID_TYPE_MAP\<close>)\<close>

definition MERMAID_TYPE_MAP :: "(string \<times> string) list" where
  "MERMAID_TYPE_MAP =
     [(''flowchart'', ''Flowchart''),
      (''graph'', ''Flowchart''),
      (''sequence'', ''Sequence''),
      (''sequencediagram'', ''Sequence''),
      (''sequenceDiagram'', ''Sequence''),
      (''class'', ''Class''),
      (''classdiagram'', ''Class''),
      (''classDiagram'', ''Class'')]"

text \<open>The first statements of \<open>generate_mermaid_with_gemini\<close>: trim, lower-case, look up;
  a miss raises \<open>HTTPException(400)\<close> whose detail quotes the caller's string.\<close>

definition resolve_diagram_type :: "string \<Rightarrow> exn + string" where
  "resolve_diagram_type diagram_type =
     (let normalized_type = strip diagram_type;
          lookup_key = lower normalized_type
      in case map_of MERMAID_TYPE_MAP lookup_key of
           None \<Rightarrow> Inl (HTTPException 400 (''Unsupported diagram type: '' @ diagram_type))
         | Some gemini_diagram_type \<Rightarrow> Inr gemini_diagram_type)"

text \<open>The resolver as the specification words it: six accepted lower-case spellings and
  three canonical kinds.\<close>

datatype canonical_kind = Flowchart | Sequence | Class

definition spec_resolve :: "string \<Rightarrow> canonical_kind option" where
  "spec_resolve s =
     (let k = lower (strip s) in
      if k = ''flowchart'' \<or> k = ''graph'' then Some Flowchart
      else if k = ''sequence'' \<or> k = ''sequencediagram'' then Some Sequence
      else if k = ''class'' \<or> k = ''classdiagram'' then Some Class
      else None)"

fun kind_name :: "canonical_kind \<Rightarrow> string" where
  "kind_name Flowchart = ''Flowchart''"
| "kind_name Sequence = ''Sequence''"
| "kind_name Class = ''Class''"

section \<open>\<open>sanitize_candidate\<close>\<close>

definition endswith :: "string \<Rightarrow> string \<Rightarrow> bool" where
  "endswith s p = (length p \<le> length s \<and> drop (length s - length p) s = p)"

definition is_ascii_alpha :: "char \<Rightarrow> bool" where
  "is_ascii_alpha c = (let n = (of_char c :: nat) in
     (65 \<le> n \<and> n \<le> 90) \<or> (97 \<le> n \<and> n \<le> 122))"

text \<open>\<open>re.sub(r'^```[a-zA-Z]*\n?', '', s)\<close>: without the MULTILINE flag the pattern can
  only match at position 0; the letters and the optional LF are taken greedily.\<close>

definition sub_open_fence :: "string \<Rightarrow> string" where
  "sub_open_fence s =
     (if startswith s ''```'' then
        (let r = dropWhile is_ascii_alpha (drop 3 s) in
         case r of [] \<Rightarrow> [] | c # cs \<Rightarrow> if c = LF then cs else r)
      else s)"

text \<open>\<open>re.sub(r'\n?```$', '', s)\<close>: \<open>$\<close> matches at the end of the string and just
  before a final LF; the leftmost match is replaced, so a LF in front of the fence goes
  with it.\<close>

definition sub_close_fence :: "string \<Rightarrow> string" where
  "sub_close_fence s =
     (let n = length s in
      if endswith s (LF # ''```'') then take (n - 4) s
      else if endswith s ''```'' then take (n - 3) s
      else if endswith s (LF # ''```'' @ [LF]) then take (n - 5) s @ [LF]
      else if endswith s (''```'' @ [LF]) then take (n - 4) s @ [LF]
      else s)"

definition sanitize_candidate :: "string \<Rightarrow> string" where
  "sanitize_candidate candidate =
     (let cleaned = strip candidate;
          cleaned = sub_open_fence cleaned;
          cleaned = sub_close_fence cleaned
      in strip cleaned)"

section \<open>The generation step \<open>generate_mermaid_with_gemini\<close>\<close>

text \<open>
  What the handler takes from outside the program: the outcome of opening and reading the
  prompt file, the generation capability (prompt in; the response text out, or an
  exception), and the text \<open>str(exc)\<close> of an \<open>HTTPException\<close>, which the web framework
  defines.
\<close>

text \<open>Opening and reading the prompt file in text mode fails with
  \<open>UnicodeDecodeError\<close>, which is a \<open>ValueError\<close>, or with an \<open>OSError\<close> such as
  \<open>FileNotFoundError\<close>, which is not; each carries its message.\<close>

datatype read_failure = DecodeFailure string | OSFailure string

fun exn_of_read_failure :: "read_failure \<Rightarrow> exn" where
  "exn_of_read_failure (DecodeFailure m) = ValueError m"
| "exn_of_read_failure (OSFailure m) = OtherException m"

record env =
  prompt_file :: "read_failure + string"
  generate_content :: "string \<Rightarrow> exn + string"
  http_str :: "nat \<Rightarrow> string \<Rightarrow> string"

fun str_exc :: "env \<Rightarrow> exn \<Rightarrow> string" where
  "str_exc e (HTTPException c d) = http_str e c d"
| "str_exc e (ValueError m) = m"
| "str_exc e (OtherException m) = m"

definition recognized_header :: "string \<Rightarrow> bool" where
  "recognized_header first_line =
     (startswith first_line ''graph'' \<or> startswith first_line ''flowchart'' \<or>
      startswith first_line ''sequencediagram'' \<or> startswith first_line ''classdiagram'')"

text \<open>The validation of the response: the first element of \<open>splitlines()\<close>, trimmed and
  lower-cased, must start with a recognised header.\<close>

definition validate_response :: "string \<Rightarrow> exn + string" where
  "validate_response mermaid_code =
     (case splitlines mermaid_code of
        [] \<Rightarrow> Inl (OtherException ''list index out of range'')
      | l # _ \<Rightarrow>
          (let first_line = lower (strip l) in
           if \<not> recognized_header first_line
             then Inl (HTTPException 502 ''Gemini API did not return valid Mermaid syntax'')
           else Inr mermaid_code))"

text \<open>The body of the inner \<open>try\<close>: one call of the capability, the emptiness test, the
  validation. The call to \<open>sanitize_candidate\<close> is commented out in the source, so the
  response text is validated and returned as it came.\<close>

definition gemini_try_body :: "env \<Rightarrow> string \<Rightarrow> exn + string" where
  "gemini_try_body e full_prompt =
     (case generate_content e full_prompt of
        Inl exc \<Rightarrow> Inl exc
      | Inr text \<Rightarrow>
          if text = [] then Inl (HTTPException 502 ''Gemini API returned empty response'')
          else validate_response text)"

definition generate_mermaid_with_gemini :: "env \<Rightarrow> string \<Rightarrow> string \<Rightarrow> exn + string" where
  "generate_mermaid_with_gemini e requirement diagram_type =
     (case resolve_diagram_type diagram_type of
        Inl exc \<Rightarrow> Inl exc
      | Inr gemini_diagram_type \<Rightarrow>
          (case prompt_file e of
             Inl f \<Rightarrow> Inl (exn_of_read_failure f)
           | Inr full_prompt \<Rightarrow>
               (case gemini_try_body e full_prompt of
                  Inl exc \<Rightarrow> Inl (HTTPException 502 (''Gemini API error: '' @ str_exc e exc))
                | Inr mermaid_code \<Rightarrow> Inr mermaid_code)))"

section \<open>The serializer \<open>convertToJson\<close>\<close>

definition DQ :: char where "DQ = CHR 0x22"
definition BSL :: char where "BSL = CHR 0x5C"

definition hex_digit :: "nat \<Rightarrow> char" where
  "hex_digit n = char_of (if n < 10 then 48 + n else 87 + n)"

text \<open>\<open>json.dumps\<close> of a string with the default \<open>ensure_ascii=True\<close>: the quote and the
  backslash are escaped, five control characters have short escapes, the printable ASCII
  characters stand for themselves, and every other code point is written as a four-digit
  lower-case hexadecimal escape.\<close>

definition json_escape_char :: "char \<Rightarrow> string" where
  "json_escape_char c =
     (let n = (of_char c :: nat) in
      if c = DQ then [BSL, DQ]
      else if c = BSL then [BSL, BSL]
      else if n = 10 then [BSL, CHR ''n'']
      else if n = 13 then [BSL, CHR ''r'']
      else if n = 9 then [BSL, CHR ''t'']
      else if n = 8 then [BSL, CHR ''b'']
      else if n = 12 then [BSL, CHR ''f'']
      else if 32 \<le> n \<and> n \<le> 126 then [c]
      else [BSL, CHR ''u'', CHR ''0'', CHR ''0'', hex_digit (n div 16), hex_digit (n mod 16)])"

definition json_dumps_str :: "string \<Rightarrow> string" where
  "json_dumps_str s = DQ # concat (map json_escape_char s) @ [DQ]"

definition convertToJson :: "string \<Rightarrow> string" where
  "convertToJson code =
     (let mermaid_lines = map strip (splitlines (strip code));
          joined_mermaid = join [LF] mermaid_lines
      in ''{'' @ json_dumps_str ''mermaid_syntax'' @ '':'' @ json_dumps_str joined_mermaid @ ''}'')"

text \<open>The normalisation as the specification words it: split into lines, trim each line,
  join with a single newline.\<close>

definition spec_normalize :: "string \<Rightarrow> string" where
  "spec_normalize x = join [LF] (map strip (splitlines x))"

subsection \<open>Decoding, for the round trip\<close>

text \<open>
  \<open>json.loads\<close> on the documents the round trip needs: an object with one member whose
  value is a string. The string scanner follows the strict scanner of Python's \<open>json\<close>
  module (escapes \<open>"\<close>, \<open>\\\<close>, \<open>/\<close>, \<open>b\<close>, \<open>f\<close>, \<open>n\<close>, \<open>r\<close>, \<open>t\<close> and \<open>uXXXX\<close>; a raw
  control character is an error); an escape that names a code point above 255 is outside
  the model and yields \<open>None\<close>.
\<close>

definition hex_val :: "char \<Rightarrow> nat option" where
  "hex_val c =
     (let n = (of_char c :: nat) in
      if 48 \<le> n \<and> n \<le> 57 then Some (n - 48)
      else if 97 \<le> n \<and> n \<le> 102 then Some (n - 87)
      else if 65 \<le> n \<and> n \<le> 70 then Some (n - 55)
      else None)"

definition hex4 :: "char \<Rightarrow> char \<Rightarrow> char \<Rightarrow> char \<Rightarrow> nat option" where
  "hex4 a b c d =
     (case (hex_val a, hex_val b, hex_val c, hex_val d) of
        (Some w, Some x, Some y, Some z) \<Rightarrow> Some (((w * 16 + x) * 16 + y) * 16 + z)
      | _ \<Rightarrow> None)"

definition unescape :: "char \<Rightarrow> char option" where
  "unescape e =
     (if e = DQ then Some DQ
      else if e = BSL then Some BSL
      else if e = CHR ''/'' then Some (CHR ''/'')
      else if e = CHR ''b'' then Some (CHR 0x08)
      else if e = CHR ''f'' then Some (CHR 0x0C)
      else if e = CHR ''n'' then Some (CHR 0x0A)
      else if e = CHR ''r'' then Some (CHR 0x0D)
      else if e = CHR ''t'' then Some (CHR 0x09)
      else None)"

definition cons_result :: "char \<Rightarrow> (string \<times> string) option \<Rightarrow> (string \<times> string) option" where
  "cons_result c r = (case r of None \<Rightarrow> None | Some (s, rest) \<Rightarrow> Some (c # s, rest))"

text \<open>\<open>scanstring inp\<close> reads a string literal whose opening quote has been consumed and
  returns the decoded string with the input left after the closing quote.\<close>

fun scanstring :: "string \<Rightarrow> (string \<times> string) option" where
  "scanstring [] = None"
| "scanstring [c] = (if c = DQ then Some ([], []) else None)"
| "scanstring (c # e # cs) =
     (if c = DQ then Some ([], e # cs)
      else if c = BSL then
        (if e = CHR ''u'' then
           (case cs of
              h1 # h2 # h3 # h4 # cs' \<Rightarrow>
                (case hex4 h1 h2 h3 h4 of
                   None \<Rightarrow> None
                 | Some n \<Rightarrow> if n < 256 then cons_result (char_of n) (scanstring cs') else None)
            | _ \<Rightarrow> None)
         else
           (case unescape e of
              None \<Rightarrow> None
            | Some d \<Rightarrow> cons_result d (scanstring cs)))
      else if (of_char c :: nat) < 32 then None
      else cons_result c (scanstring (e # cs)))"

definition is_json_ws :: "char \<Rightarrow> bool" where
  "is_json_ws c = (of_char c \<in> set [32, 9, 10, 13 :: nat])"

definition expect :: "char \<Rightarrow> string \<Rightarrow> string option" where
  "expect c inp =
     (case dropWhile is_json_ws inp of
        [] \<Rightarrow> None
      | d # rest \<Rightarrow> if d = c then Some rest else None)"

definition json_loads_member :: "string \<Rightarrow> (string \<times> string) option" where
  "json_loads_member inp =
     (case expect (CHR ''{'') inp of None \<Rightarrow> None | Some r1 \<Rightarrow>
     (case expect DQ r1 of None \<Rightarrow> None | Some r2 \<Rightarrow>
     (case scanstring r2 of None \<Rightarrow> None | Some (k, r3) \<Rightarrow>
     (case expect (CHR '':'') r3 of None \<Rightarrow> None | Some r4 \<Rightarrow>
     (case expect DQ r4 of None \<Rightarrow> None | Some r5 \<Rightarrow>
     (case scanstring r5 of None \<Rightarrow> None | Some (v, r6) \<Rightarrow>
     (case expect (CHR ''}'') r6 of None \<Rightarrow> None | Some r7 \<Rightarrow>
        if dropWhile is_json_ws r7 = [] then Some (k, v) else None)))))))"

definition decode_mermaid_syntax :: "string \<Rightarrow> string option" where
  "decode_mermaid_syntax j =
     (case json_loads_member j of
        None \<Rightarrow> None
      | Some (k, v) \<Rightarrow> if k = ''mermaid_syntax'' then Some v else None)"

section \<open>The endpoint \<open>receive_diagram\<close>\<close>

record request =
  requirement :: string
  diagram_type :: string

text \<open>The success payload; the fields are the keys \<open>status\<close>, \<open>requirement\<close>,
  \<open>diagram_type\<close>, \<open>Detected Diagram Type\<close>, \<open>Clean Mermaid Code\<close> and
  \<open>Json Mermaid Code\<close> of the returned dictionary.\<close>

record response =
  status :: string
  resp_requirement :: string
  resp_diagram_type :: string
  detected_diagram_type :: string
  clean_mermaid :: string
  json_mermaid :: string

text \<open>The module-level dictionary \<open>fetched_data\<close>; reading a missing key raises
  \<open>KeyError\<close>.\<close>

type_synonym store = "string \<rightharpoonup> string"

definition get_item :: "store \<Rightarrow> string \<Rightarrow> exn + string" where
  "get_item fd k = (case fd k of None \<Rightarrow> Inl (OtherException k) | Some v \<Rightarrow> Inr v)"

text \<open>The body of the outer \<open>try\<close>.\<close>

definition receive_try_body :: "env \<Rightarrow> store \<Rightarrow> exn + response" where
  "receive_try_body e fd =
     (case get_item fd ''requirement'' of Inl x \<Rightarrow> Inl x | Inr req \<Rightarrow>
     (case get_item fd ''diagram_type'' of Inl x \<Rightarrow> Inl x | Inr dt \<Rightarrow>
     (case generate_mermaid_with_gemini e req dt of Inl x \<Rightarrow> Inl x | Inr mermaid \<Rightarrow>
     (case clean_mermaid_code mermaid of Inl x \<Rightarrow> Inl x | Inr result \<Rightarrow>
        Inr \<lparr>status = ''success'',
             resp_requirement = req,
             resp_diagram_type = dt,
             detected_diagram_type = art_type result,
             clean_mermaid = art_code result,
             json_mermaid = convertToJson (art_code result)\<rparr>))))"

text \<open>The three \<open>except\<close> clauses, in the order of the source.\<close>

fun receive_handlers :: "exn \<Rightarrow> exn" where
  "receive_handlers (HTTPException c d) = HTTPException c d"
| "receive_handlers (ValueError m) = HTTPException 502 m"
| "receive_handlers (OtherException m) = HTTPException 500 ''Unexpected error occurred''"

definition receive_diagram :: "env \<Rightarrow> store \<Rightarrow> request \<Rightarrow> store \<times> (exn + response)" where
  "receive_diagram e fetched_data inp =
     (let fd1 = fetched_data(''requirement'' \<mapsto> requirement inp);
          fd2 = fd1(''diagram_type'' \<mapsto> diagram_type inp)
      in (fd2,
          case receive_try_body e fd2 of
            Inl x \<Rightarrow> Inl (receive_handlers x)
          | Inr r \<Rightarrow> Inr r))"

section \<open>The static variant of the endpoint (\<open>python_fastapi\<close>)\<close>

text \<open>The variant generates nothing: its diagram is a literal, its classifier and
  serializer are the ones above, and its single \<open>except\<close> clause prints the error and
  lets the handler return nothing.\<close>

definition static_mermaid :: string where
  "static_mermaid =
     [LF] @ ''        graph TD'' @
     [LF] @ ''        A[Vehicle in motion]->B{Seatbelt unbuckled?}'' @
     [LF] @ ''        B -- No->F[No action]'' @
     [LF] @ ''        B --Yes->C[Start 3s timer]'' @
     [LF] @ ''        C -> D{Alert within 3 seconds?}'' @
     [LF] @ ''        D -- Yes--E[Alert driver]'' @
     [LF] @ ''        D -- No --G[Timeout / Failed]'' @
     [LF] @ ''        ''"

definition static_try_body :: "store \<Rightarrow> exn + response" where
  "static_try_body fd =
     (case clean_mermaid_code static_mermaid of Inl x \<Rightarrow> Inl x | Inr result \<Rightarrow>
     (let jsonRes = convertToJson static_mermaid in
     (case get_item fd ''requirement'' of Inl x \<Rightarrow> Inl x | Inr req \<Rightarrow>
     (case get_item fd ''diagram_type'' of Inl x \<Rightarrow> Inl x | Inr dt \<Rightarrow>
        Inr \<lparr>status = ''success'',
             resp_requirement = req,
             resp_diagram_type = dt,
             detected_diagram_type = art_type result,
             clean_mermaid = art_code result,
             json_mermaid = jsonRes\<rparr>))))"

definition receive_diagram_static :: "store \<Rightarrow> request \<Rightarrow> store \<times> response option" where
  "receive_diagram_static fetched_data inp =
     (let fd1 = fetched_data(''requirement'' \<mapsto> requirement inp);
          fd2 = fd1(''diagram_type'' \<mapsto> diagram_type inp)
      in (fd2,
          case static_try_body fd2 of
            Inl x \<Rightarrow> None
          | Inr r \<Rightarrow> Some r))"

section \<open>Lines of a text\<close>

definition first_nonblank :: "string list \<Rightarrow> string option" where
  "first_nonblank ls = find (\<lambda>l. strip l \<noteq> []) ls"

definition fenced_example :: string where
  "fenced_example = ''```mermaid'' @ [LF] @ ''graph TD'' @ [LF] @ ''A-->B'' @ [LF] @ ''```''"

definition is_lower_ascii :: "char \<Rightarrow> bool" where
  "is_lower_ascii c = (97 \<le> (of_char c :: nat) \<and> (of_char c :: nat) \<le> 122)"

text \<open>The detected type that belongs to a header, as the specification lists it:
  \<open>graph\<close> and \<open>flowchart\<close> give \<open>flowchart\<close>, \<open>sequencediagram\<close> gives
  \<open>sequenceDiagram\<close>, \<open>classdiagram\<close> gives \<open>classDiagram\<close>.\<close>

definition spec_header_type :: "string \<Rightarrow> string option" where
  "spec_header_type l =
     (if startswith l ''graph'' \<or> startswith l ''flowchart'' then Some ''flowchart''
      else if startswith l ''sequencediagram'' then Some ''sequenceDiagram''
      else if startswith l ''classdiagram'' then Some ''classDiagram''
      else None)"

section \<open>A stub environment for examples\<close>

text \<open>A prompt file that reads, a capability that returns a fixed text whatever the
  prompt, and a framework whose \<open>str(HTTPException(c, d))\<close> is the three-digit status, a
  colon and the detail.\<close>

definition status_str :: "nat \<Rightarrow> string" where
  "status_str c = [char_of (48 + c div 100 mod 10), char_of (48 + c div 10 mod 10), char_of (48 + c mod 10)]"

definition framework_str :: "nat \<Rightarrow> string \<Rightarrow> string" where
  "framework_str c d = status_str c @ '': '' @ d"

definition stub_env :: "string \<Rightarrow> env" where
  "stub_env out =
     \<lparr>prompt_file = Inr ''Generate a Mermaid diagram.'',
      generate_content = (\<lambda>prompt. Inr out),
      http_str = framework_str\<rparr>"

text \<open>A capability that answers with a flowchart header followed by the prompt it was
  given, so that the response shows which prompt was sent.\<close>

definition echo_env :: env where
  "echo_env =
     \<lparr>prompt_file = Inr ''Generate a Mermaid diagram.'',
      generate_content = (\<lambda>prompt. Inr (''graph TD'' @ [LF] @ prompt)),
      http_str = framework_str\<rparr>"

text \<open>An environment whose prompt file cannot be decoded: reading it raises
  \<open>UnicodeDecodeError\<close>, a \<open>ValueError\<close>.\<close>

definition undecodable_env :: env where
  "undecodable_env =
     \<lparr>prompt_file = Inl (DecodeFailure ''invalid start byte''),
      generate_content = (\<lambda>prompt. Inr ''graph TD''),
      http_str = framework_str\<rparr>"

text \<open>An environment whose capability raises, and one whose prompt file is missing.\<close>

definition failing_env :: env where
  "failing_env =
     \<lparr>prompt_file = Inr ''Generate a Mermaid diagram.'',
      generate_content = (\<lambda>prompt. Inl (OtherException ''quota exceeded'')),
      http_str = framework_str\<rparr>"

definition missing_prompt_env :: env where
  "missing_prompt_env =
     \<lparr>prompt_file = Inl (OSFailure ''No such file or directory''),
      generate_content = (\<lambda>prompt. Inr ''graph TD''),
      http_str = framework_str\<rparr>"

section \<open>Concurrent requests\<close>

text \<open>
  The handler's only \<open>await\<close> is on \<open>generate_mermaid_with_gemini\<close>, a coroutine
  with no \<open>await\<close> inside (the call of the capability is synchronous), so a handler
  never suspends: requests that are in flight together are served whole, one after the
  other, in some order, each starting on the dictionary the one before left.
  \<open>run_handlers\<close> serves a schedule of requests, each with the environment it meets.
\<close>

fun run_handlers :: "store \<Rightarrow> (env \<times> request) list \<Rightarrow> store \<times> (exn + response) list" where
  "run_handlers fd [] = (fd, [])"
| "run_handlers fd ((e, inp) # rest) =
     (let (fd1, r) = receive_diagram e fd inp;
          (fd2, rs) = run_handlers fd1 rest
      in (fd2, r # rs))"

text \<open>A response echoes a request when, being a success, it carries that request's
  requirement and diagram type.\<close>

definition echoes :: "request \<Rightarrow> exn + response \<Rightarrow> bool" where
  "echoes inp r =
     (case r of
        Inl x \<Rightarrow> True
      | Inr resp \<Rightarrow>
          resp_requirement resp = requirement inp \<and> resp_diagram_type resp = diagram_type inp)"

section \<open>The resolver\<close>

lemma lower_char_not_D: "lower_char c \<noteq> CHR ''D''"
proof -
  have "(of_char (lower_char c) :: nat) \<noteq> 68"
    by (auto simp: lower_char_def is_upper_def Let_def)
  then show ?thesis by auto
qed

lemma lower_not_mixed:
  "lower s \<noteq> ''sequenceDiagram''" "lower s \<noteq> ''classDiagram''"
  by (auto simp: lower_def map_eq_Cons_conv lower_char_not_D)

lemma resolve_refines_spec:
  "resolve_diagram_type s =
     (case spec_resolve s of
        None \<Rightarrow> Inl (HTTPException 400 (''Unsupported diagram type: '' @ s))
      | Some k \<Rightarrow> Inr (kind_name k))"
  using lower_not_mixed [of "strip s"]
  by (simp add: resolve_diagram_type_def spec_resolve_def MERMAID_TYPE_MAP_def Let_def)

lemma resolve_spellings:
  "map resolve_diagram_type
     [''flowchart'', ''Flowchart'', ''graph'', ''sequence'', ''sequenceDiagram'', ''class'',
      ''classDiagram''] =
   map Inr [''Flowchart'', ''Flowchart'', ''Flowchart'', ''Sequence'', ''Sequence'', ''Class'',
      ''Class'']"
  by code_simp

lemma resolve_miss_iff:
  "(resolve_diagram_type s = Inl (HTTPException 400 (''Unsupported diagram type: '' @ s))) =
   (lower (strip s) \<notin> set [''flowchart'', ''graph'', ''sequence'', ''sequencediagram'', ''class'',
      ''classdiagram''])"
  by (simp add: resolve_refines_spec spec_resolve_def Let_def)

text \<open>
  C1. For every input string the source's resolver (trim, lower-case, look up in
  \<open>MERMAID_TYPE_MAP\<close>) returns what the specification's six-entry mapping returns: the
  canonical kind of the trimmed, lower-cased string when it is one of \<open>flowchart\<close>,
  \<open>graph\<close>, \<open>sequence\<close>, \<open>sequencediagram\<close>, \<open>class\<close>, \<open>classdiagram\<close>, and otherwise
  the failure \<open>HTTPException(400)\<close> naming the caller's string; it never defaults to a
  kind. The seven surface spellings of the specification resolve to Flowchart, Flowchart,
  Flowchart, Sequence, Sequence, Class, Class, and \<open>pie\<close> fails with status 400.
\<close>

theorem resolver_correct:
  "resolve_diagram_type s =
     (case spec_resolve s of
        None \<Rightarrow> Inl (HTTPException 400 (''Unsupported diagram type: '' @ s))
      | Some k \<Rightarrow> Inr (kind_name k)) \<and>
   (resolve_diagram_type s = Inl (HTTPException 400 (''Unsupported diagram type: '' @ s))) =
     (lower (strip s) \<notin> set [''flowchart'', ''graph'', ''sequence'', ''sequencediagram'',
        ''class'', ''classdiagram'']) \<and>
   map resolve_diagram_type
     [''flowchart'', ''Flowchart'', ''graph'', ''sequence'', ''sequenceDiagram'', ''class'',
      ''classDiagram''] =
   map Inr [''Flowchart'', ''Flowchart'', ''Flowchart'', ''Sequence'', ''Sequence'', ''Class'',
      ''Class''] \<and>
   resolve_diagram_type ''pie'' = Inl (HTTPException 400 ''Unsupported diagram type: pie'')"
proof -
  have "resolve_diagram_type ''pie'' = Inl (HTTPException 400 ''Unsupported diagram type: pie'')"
    by code_simp
  then show ?thesis
    using resolve_refines_spec [of s] resolve_miss_iff [of s] resolve_spellings by blast
qed

section \<open>First lines and headers\<close>

lemma split_nl_head: "\<exists>ls. split_nl s = takeWhile (\<lambda>c. c \<noteq> LF) s # ls"
  by (induction s) auto

lemma is_linebreak_CR: "is_linebreak CR"
  by (simp add: is_linebreak_def CR_def)

lemma splitlines_from_head:
  "acc \<noteq> [] \<or> s \<noteq> [] \<Longrightarrow>
   \<exists>ls. splitlines_from acc s = (rev acc @ takeWhile (\<lambda>c. \<not> is_linebreak c) s) # ls"
proof (induction s arbitrary: acc)
  case Nil
  then show ?case by simp
next
  case (Cons c cs)
  show ?case
  proof (cases "is_linebreak c")
    case True
    then show ?thesis by (auto split: list.splits)
  next
    case False
    then have "c \<noteq> CR" using is_linebreak_CR by auto
    with False Cons.IH [of "c # acc"] show ?thesis by auto
  qed
qed

lemma splitlines_head:
  "s \<noteq> [] \<Longrightarrow> \<exists>ls. splitlines s = takeWhile (\<lambda>c. \<not> is_linebreak c) s # ls"
  using splitlines_from_head [of "[]" s] by (simp add: splitlines_def)

lemma splitlines_Nil: "splitlines [] = []"
  by (simp add: splitlines_def)

lemma rstrip_append:
  "p \<noteq> [] \<Longrightarrow> \<not> is_space (last p) \<Longrightarrow> rstrip (p @ r) = p @ rstrip r"
  by (cases p rule: rev_cases) (auto simp: rstrip_def dropWhile_append)

lemma lstrip_nonspace: "\<not> is_space a \<Longrightarrow> lstrip (a # s) = a # s"
  by (simp add: lstrip_def)

lemma strip_append:
  assumes "p \<noteq> []" "\<forall>c \<in> set p. \<not> is_space c"
  shows "strip (p @ r) = p @ rstrip r"
proof -
  from assms obtain a q where p: "p = a # q" by (cases p) auto
  with assms have "lstrip (p @ r) = p @ r" by (simp add: lstrip_nonspace)
  moreover from assms have "\<not> is_space (last p)" by simp
  ultimately show ?thesis using assms(1) by (simp add: strip_def rstrip_append)
qed

lemma rstrip_prefix: "\<exists>r. s = rstrip s @ r"
proof -
  have "rev s = takeWhile is_space (rev s) @ dropWhile is_space (rev s)" by simp
  then have "s = rev (dropWhile is_space (rev s)) @ rev (takeWhile is_space (rev s))"
    by (metis rev_append rev_rev_ident)
  then show ?thesis unfolding rstrip_def by blast
qed

lemma strip_head_nonspace: "strip t = a # y \<Longrightarrow> \<not> is_space a"
proof -
  assume h: "strip t = a # y"
  obtain r where r: "lstrip t = rstrip (lstrip t) @ r" using rstrip_prefix by blast
  with h have "lstrip t = a # y @ r" by (simp add: strip_def)
  then show ?thesis unfolding lstrip_def by (metis hd_dropWhile list.sel(1) list.distinct(1))
qed


lemma startswith_length: "startswith u h \<Longrightarrow> length h \<le> length u"
proof -
  assume "startswith u h"
  then have "length (take (length h) u) = length h" by (simp add: startswith_def)
  then show ?thesis by simp
qed

lemma strip_Nil: "strip [] = []"
  by (simp add: strip_def lstrip_def rstrip_def)

lemma startswith_append: "startswith u h \<Longrightarrow> startswith (u @ v) h"
  using startswith_length [of u h] by (simp add: startswith_def)

lemma startswith_self_append: "startswith (h @ z) h"
  by (simp add: startswith_def)

lemma lower_append: "lower (u @ v) = lower u @ lower v"
  by (simp add: lower_def)

lemma lower_preimage_nonspace:
  "is_lower_ascii (lower_char c) \<Longrightarrow> \<not> is_space c"
  by (auto simp: is_lower_ascii_def lower_char_def is_upper_def is_space_def Let_def
      split: if_splits)

lemma first_line_header:
  assumes B: "\<And>c. B c \<Longrightarrow> is_space c"
    and h: "list_all is_lower_ascii h" "h \<noteq> []"
  shows "startswith (lower (strip (takeWhile (\<lambda>c. \<not> B c) (strip t)))) h =
         startswith (lower (strip t)) h"
proof
  let ?x = "strip t"
  let ?F = "takeWhile (\<lambda>c. \<not> B c) ?x"
  assume a: "startswith (lower (strip ?F)) h"
  show "startswith (lower ?x) h"
  proof (cases ?x)
    case Nil
    then have "strip ?F = ?x" using strip_Nil by simp
    with a show ?thesis by simp
  next
    case (Cons c y)
    then have c: "\<not> is_space c" by (rule strip_head_nonspace)
    with B have "\<not> B c" by blast
    with Cons have "?F = c # takeWhile (\<lambda>c. \<not> B c) y" by simp
    with c have "lstrip ?F = ?F" by (simp add: lstrip_nonspace)
    then have sF: "strip ?F = rstrip ?F" by (simp add: strip_def)
    obtain r where "?F = rstrip ?F @ r" using rstrip_prefix by blast
    moreover have "?x = ?F @ dropWhile (\<lambda>c. \<not> B c) ?x" by simp
    ultimately have "?x = strip ?F @ (r @ dropWhile (\<lambda>c. \<not> B c) ?x)"
      using sF by (metis append.assoc)
    then have "lower ?x = lower (strip ?F) @ lower (r @ dropWhile (\<lambda>c. \<not> B c) ?x)"
      by (metis lower_append)
    with a show ?thesis by (metis startswith_append)
  qed
next
  let ?x = "strip t"
  let ?k = "length h"
  assume a: "startswith (lower ?x) h"
  define p where "p = take ?k ?x"
  define r where "r = drop ?k ?x"
  have x: "?x = p @ r" by (simp add: p_def r_def)
  from a have lp: "lower p = h"
    by (simp add: startswith_def lower_def p_def take_map)
  with h(2) have pne: "p \<noteq> []" by (auto simp: lower_def)
  have ns: "\<forall>c \<in> set p. \<not> is_space c"
  proof
    fix c assume "c \<in> set p"
    then have "lower_char c \<in> set h" using lp by (auto simp: lower_def)
    with h(1) have "is_lower_ascii (lower_char c)" by (simp add: list_all_iff)
    then show "\<not> is_space c" by (rule lower_preimage_nonspace)
  qed
  with B have "\<forall>c \<in> set p. \<not> B c" by blast
  then have "takeWhile (\<lambda>c. \<not> B c) (p @ r) = p @ takeWhile (\<lambda>c. \<not> B c) r"
    by simp
  then have "strip (takeWhile (\<lambda>c. \<not> B c) (p @ r)) = p @ rstrip (takeWhile (\<lambda>c. \<not> B c) r)"
    using strip_append [OF pne ns] by simp
  then have "lower (strip (takeWhile (\<lambda>c. \<not> B c) ?x)) =
      h @ lower (rstrip (takeWhile (\<lambda>c. \<not> B c) r))"
    using lp x by (simp add: lower_append)
  then show "startswith (lower (strip (takeWhile (\<lambda>c. \<not> B c) ?x))) h"
    by (simp add: startswith_self_append)
qed


lemma linebreak_is_space: "is_linebreak c \<Longrightarrow> is_space c"
  by (auto simp: is_linebreak_def is_space_def)

lemma LF_is_space: "c = LF \<Longrightarrow> is_space c"
  by (simp add: LF_def is_space_def)

lemma headers_lower_ascii:
  "list_all is_lower_ascii ''graph''" "list_all is_lower_ascii ''flowchart''"
  "list_all is_lower_ascii ''sequencediagram''" "list_all is_lower_ascii ''classdiagram''"
  by (simp_all add: is_lower_ascii_def)

lemma header_lines_agree:
  assumes "list_all is_lower_ascii h" "h \<noteq> []"
  shows "startswith (lower (strip (takeWhile (\<lambda>c. \<not> is_linebreak c) (strip t)))) h =
         startswith (lower (strip (takeWhile (\<lambda>c. c \<noteq> LF) (strip t)))) h"
  using first_line_header [of is_linebreak h t, OF linebreak_is_space assms]
    first_line_header [of "\<lambda>c. c = LF" h t, OF LF_is_space assms]
  by simp

lemma spec_header_type_lines:
  "spec_header_type (lower (strip (takeWhile (\<lambda>c. \<not> is_linebreak c) (strip t)))) =
   spec_header_type (lower (strip (takeWhile (\<lambda>c. c \<noteq> LF) (strip t))))"
  unfolding spec_header_type_def
  by (simp only: header_lines_agree [OF headers_lower_ascii(1)]
      header_lines_agree [OF headers_lower_ascii(2)]
      header_lines_agree [OF headers_lower_ascii(3)]
      header_lines_agree [OF headers_lower_ascii(4)] list.distinct not_False_eq_True)

lemma spec_header_type_recognized:
  "recognized_header l = (spec_header_type l \<noteq> None)"
  by (simp add: recognized_header_def spec_header_type_def)

lemma spec_header_type_nonblank: "spec_header_type (lower (strip l)) = Some ty \<Longrightarrow> strip l \<noteq> []"
  by (auto simp: spec_header_type_def lower_def startswith_def split: if_splits)

lemma clean_Inr_iff:
  "(clean_mermaid_code t = Inr a) =
   (spec_header_type (lower (strip (takeWhile (\<lambda>c. c \<noteq> LF) (strip t)))) = Some (art_type a) \<and>
    art_code a = strip t)"
proof -
  obtain ls where "split_nl (strip t) = takeWhile (\<lambda>c. c \<noteq> LF) (strip t) # ls"
    using split_nl_head by blast
  then show ?thesis
    by (cases a) (auto simp: clean_mermaid_code_def spec_header_type_def Let_def)
qed

lemma artifact_lines:
  assumes "clean_mermaid_code t = Inr a"
  shows "\<exists>l. first_nonblank (splitlines (art_code a)) = Some l \<and>
             spec_header_type (lower (strip l)) = Some (art_type a)"
    and "\<exists>l. first_nonblank (split_nl (art_code a)) = Some l \<and>
             spec_header_type (lower (strip l)) = Some (art_type a)"
proof -
  let ?x = "strip t"
  let ?Fn = "takeWhile (\<lambda>c. c \<noteq> LF) ?x"
  let ?Fs = "takeWhile (\<lambda>c. \<not> is_linebreak c) ?x"
  from assms have ty: "spec_header_type (lower (strip ?Fn)) = Some (art_type a)"
    and co: "art_code a = ?x" by (simp_all add: clean_Inr_iff)
  from ty have nb: "strip ?Fn \<noteq> []" by (rule spec_header_type_nonblank)
  then have xne: "?x \<noteq> []" using strip_Nil by auto
  from ty have ty': "spec_header_type (lower (strip ?Fs)) = Some (art_type a)"
    by (simp only: spec_header_type_lines)
  then have nb': "strip ?Fs \<noteq> []" by (rule spec_header_type_nonblank)
  obtain ls where "splitlines ?x = ?Fs # ls" using splitlines_head [OF xne] by blast
  with nb' have "first_nonblank (splitlines ?x) = Some ?Fs" by (simp add: first_nonblank_def)
  with ty' co show "\<exists>l. first_nonblank (splitlines (art_code a)) = Some l \<and>
             spec_header_type (lower (strip l)) = Some (art_type a)" by simp
  obtain ls' where "split_nl ?x = ?Fn # ls'" using split_nl_head by blast
  with nb have "first_nonblank (split_nl ?x) = Some ?Fn" by (simp add: first_nonblank_def)
  with ty co show "\<exists>l. first_nonblank (split_nl (art_code a)) = Some l \<and>
             spec_header_type (lower (strip l)) = Some (art_type a)" by simp
qed

section \<open>The artifacts of the classifier\<close>

text \<open>
  C6. Every artifact that \<open>clean_mermaid_code\<close> returns satisfies the invariant: the first
  non-blank line of its code, trimmed and lower-cased, starts with one of the four
  recognised headers, and its detected type is the one of \<open>flowchart\<close>,
  \<open>sequenceDiagram\<close>, \<open>classDiagram\<close> that belongs to that header. This holds with the
  lines taken as \<open>splitlines\<close> takes them and as \<open>split('\n')\<close> takes them. No other
  function of the program constructs an artifact.
\<close>

theorem artifact_invariant:
  "clean_mermaid_code t = Inr a \<Longrightarrow>
     (\<exists>l. first_nonblank (splitlines (art_code a)) = Some l \<and>
          recognized_header (lower (strip l)) \<and>
          spec_header_type (lower (strip l)) = Some (art_type a)) \<and>
     (\<exists>l. first_nonblank (split_nl (art_code a)) = Some l \<and>
          recognized_header (lower (strip l)) \<and>
          spec_header_type (lower (strip l)) = Some (art_type a)) \<and>
     art_type a \<in> set [''flowchart'', ''sequenceDiagram'', ''classDiagram'']"
proof -
  assume h: "clean_mermaid_code t = Inr a"
  from artifact_lines(1) [OF h] have 1:
    "\<exists>l. first_nonblank (splitlines (art_code a)) = Some l \<and>
          recognized_header (lower (strip l)) \<and>
          spec_header_type (lower (strip l)) = Some (art_type a)"
    by (auto simp: spec_header_type_recognized)
  from artifact_lines(2) [OF h] have 2:
    "\<exists>l. first_nonblank (split_nl (art_code a)) = Some l \<and>
          recognized_header (lower (strip l)) \<and>
          spec_header_type (lower (strip l)) = Some (art_type a)"
    by (auto simp: spec_header_type_recognized)
  from 2 have 3: "art_type a \<in> set [''flowchart'', ''sequenceDiagram'', ''classDiagram'']"
    by (auto simp: spec_header_type_def split: if_splits)
  from 1 2 3 show ?thesis by blast
qed

theorem artifact_invariant_witness:
  "clean_mermaid_code (''  Graph TD'' @ [LF] @ ''  A-->B '') =
     Inr \<lparr>art_type = ''flowchart'', art_code = ''Graph TD'' @ [LF] @ ''  A-->B''\<rparr> \<and>
   (\<exists>l. first_nonblank (splitlines (''Graph TD'' @ [LF] @ ''  A-->B'')) = Some l \<and>
        recognized_header (lower (strip l)) \<and>
        spec_header_type (lower (strip l)) = Some ''flowchart'')"
proof -
  have h: "clean_mermaid_code (''  Graph TD'' @ [LF] @ ''  A-->B '') =
     Inr \<lparr>art_type = ''flowchart'', art_code = ''Graph TD'' @ [LF] @ ''  A-->B''\<rparr>"
    by code_simp
  from artifact_invariant [OF h] h show ?thesis by simp
qed

lemma split_nl_nonempty: "split_nl s \<noteq> []"
  using split_nl_head [of s] by auto

text \<open>
  C10. For every input string \<open>clean_mermaid_code\<close> either raises
  \<open>ValueError('Invalid mermaid code')\<close> or returns an artifact whose code is the input with
  its leading and trailing whitespace removed and nothing else changed; the outcome
  (the error, or the detected type) is the same for two inputs whose stripped texts have
  the same first line; a fenced text is not unfenced but rejected.
\<close>

theorem classifier_only_trims:
  "(clean_mermaid_code t = Inl (ValueError ''Invalid mermaid code'') \<or>
    (\<exists>ty. ty \<in> set [''flowchart'', ''sequenceDiagram'', ''classDiagram''] \<and>
       clean_mermaid_code t = Inr \<lparr>art_type = ty, art_code = strip t\<rparr>)) \<and>
   (split_nl (strip t) = l # r \<and> split_nl (strip u) = l # r' \<longrightarrow>
      map_sum id art_type (clean_mermaid_code t) = map_sum id art_type (clean_mermaid_code u)) \<and>
   clean_mermaid_code fenced_example = Inl (ValueError ''Invalid mermaid code'')"
proof -
  have 1: "clean_mermaid_code t = Inl (ValueError ''Invalid mermaid code'') \<or>
    (\<exists>ty. ty \<in> set [''flowchart'', ''sequenceDiagram'', ''classDiagram''] \<and>
       clean_mermaid_code t = Inr \<lparr>art_type = ty, art_code = strip t\<rparr>)"
    using split_nl_nonempty [of "strip t"]
    by (auto simp: clean_mermaid_code_def Let_def split: list.splits)
  have 2: "split_nl (strip t) = l # r \<and> split_nl (strip u) = l # r' \<longrightarrow>
      map_sum id art_type (clean_mermaid_code t) = map_sum id art_type (clean_mermaid_code u)"
    by (auto simp: clean_mermaid_code_def Let_def)
  have 3: "clean_mermaid_code fenced_example = Inl (ValueError ''Invalid mermaid code'')"
    by code_simp
  from 1 2 3 show ?thesis by blast
qed

theorem classifier_only_trims_witness:
  "split_nl (strip (''graph TD'' @ [LF] @ ''A'')) = ''graph TD'' # [''A''] \<and>
   split_nl (strip (''  graph TD'' @ [LF] @ ''B-->C '')) = ''graph TD'' # [''B-->C''] \<and>
   map_sum id art_type (clean_mermaid_code (''graph TD'' @ [LF] @ ''A'')) =
   map_sum id art_type (clean_mermaid_code (''  graph TD'' @ [LF] @ ''B-->C ''))"
proof -
  have a: "split_nl (strip (''graph TD'' @ [LF] @ ''A'')) = ''graph TD'' # [''A'']"
    by code_simp
  have b: "split_nl (strip (''  graph TD'' @ [LF] @ ''B-->C '')) = ''graph TD'' # [''B-->C'']"
    by code_simp
  from classifier_only_trims [of "''graph TD'' @ [LF] @ ''A''" "''graph TD''" "[''A'']"
      "''  graph TD'' @ [LF] @ ''B-->C ''" "[''B-->C'']"] a b
  show ?thesis by blast
qed

section \<open>Validation of the response\<close>

lemma validate_response_Cons:
  "splitlines t = l # ls \<Longrightarrow>
   validate_response t =
     (if recognized_header (lower (strip l)) then Inr t
      else Inl (HTTPException 502 ''Gemini API did not return valid Mermaid syntax''))"
  by (simp add: validate_response_def Let_def)

lemma splitlines_nonempty_text: "splitlines t = l # ls \<Longrightarrow> t \<noteq> []"
  using splitlines_Nil by auto

lemma all_space_strip: "\<forall>c \<in> set s. is_space c \<Longrightarrow> strip s = []"
proof -
  assume "\<forall>c \<in> set s. is_space c"
  then have "lstrip s = []" by (simp add: lstrip_def)
  then show ?thesis by (simp add: strip_def rstrip_def)
qed

lemma strip_Nil_all_space: "strip t = [] \<Longrightarrow> \<forall>c \<in> set t. is_space c"
proof -
  assume "strip t = []"
  then have "\<forall>c \<in> set (dropWhile is_space t). is_space c"
    by (simp add: strip_def rstrip_def lstrip_def)
  then have "dropWhile is_space t = []"
    by (metis hd_dropWhile list.set_sel(1))
  then show ?thesis by simp
qed

lemma not_recognized_Nil: "\<not> recognized_header (lower [])"
  by (simp add: recognized_header_def lower_def startswith_def)

lemma validate_blank:
  assumes "t \<noteq> []" "strip t = []"
  shows "validate_response t =
     Inl (HTTPException 502 ''Gemini API did not return valid Mermaid syntax'')"
proof -
  obtain ls where sl: "splitlines t = takeWhile (\<lambda>c. \<not> is_linebreak c) t # ls"
    using splitlines_head [OF assms(1)] by blast
  from assms(2) have "\<forall>c \<in> set t. is_space c" by (rule strip_Nil_all_space)
  then have "\<forall>c \<in> set (takeWhile (\<lambda>c. \<not> is_linebreak c) t). is_space c"
    by (meson set_takeWhileD)
  then have "strip (takeWhile (\<lambda>c. \<not> is_linebreak c) t) = []" by (rule all_space_strip)
  with sl show ?thesis using not_recognized_Nil by (simp add: validate_response_Cons)
qed

lemma receive_diagram_result:
  "snd (receive_diagram e fd inp) =
     (case generate_mermaid_with_gemini e (requirement inp) (diagram_type inp) of
        Inl x \<Rightarrow> Inl (receive_handlers x)
      | Inr mermaid \<Rightarrow>
          (case clean_mermaid_code mermaid of
             Inl x \<Rightarrow> Inl (receive_handlers x)
           | Inr result \<Rightarrow>
               Inr \<lparr>status = ''success'',
                    resp_requirement = requirement inp,
                    resp_diagram_type = diagram_type inp,
                    detected_diagram_type = art_type result,
                    clean_mermaid = art_code result,
                    json_mermaid = convertToJson (art_code result)\<rparr>))"
  by (simp add: receive_diagram_def receive_try_body_def get_item_def Let_def
      split: sum.splits)

lemma generate_result:
  "resolve_diagram_type d = Inr k \<Longrightarrow> prompt_file e = Inr p \<Longrightarrow>
   generate_mermaid_with_gemini e r d =
     (case gemini_try_body e p of
        Inl exc \<Rightarrow> Inl (HTTPException 502 (''Gemini API error: '' @ str_exc e exc))
      | Inr mermaid_code \<Rightarrow> Inr mermaid_code)"
  by (simp add: generate_mermaid_with_gemini_def)

text \<open>
  C2 (amended). For every raw model output whose first line is not blank, so that it is
  the first non-blank line, the validator accepts if and only if that line, trimmed and
  lower-cased, starts with one of the four recognised headers. On rejection it raises
  \<open>HTTPException(502)\<close> with the fixed detail
  \<open>Gemini API did not return valid Mermaid syntax\<close>, which the generation step reports as
  \<open>Gemini API error:\<close> followed by the text of that exception; the detail does not quote
  the offending line.
\<close>

theorem validator_first_line:
  "splitlines t = l # ls \<Longrightarrow> strip l \<noteq> [] \<Longrightarrow>
     first_nonblank (splitlines t) = Some l \<and>
     (validate_response t = Inr t) = recognized_header (lower (strip l)) \<and>
     (validate_response t = Inr t \<or>
      validate_response t =
        Inl (HTTPException 502 ''Gemini API did not return valid Mermaid syntax'')) \<and>
     (resolve_diagram_type d = Inr k \<and> prompt_file e = Inr p \<and> generate_content e p = Inr t \<longrightarrow>
        generate_mermaid_with_gemini e r d =
          (if recognized_header (lower (strip l)) then Inr t
           else Inl (HTTPException 502 (''Gemini API error: '' @
                  http_str e 502 ''Gemini API did not return valid Mermaid syntax''))))"
proof -
  assume sl: "splitlines t = l # ls" and nb: "strip l \<noteq> []"
  from sl nb have 1: "first_nonblank (splitlines t) = Some l"
    by (simp add: first_nonblank_def)
  note v = validate_response_Cons [OF sl]
  from v have 2: "(validate_response t = Inr t) = recognized_header (lower (strip l))"
    by simp
  from v have 3: "validate_response t = Inr t \<or>
      validate_response t =
        Inl (HTTPException 502 ''Gemini API did not return valid Mermaid syntax'')"
    by simp
  have 4: "resolve_diagram_type d = Inr k \<and> prompt_file e = Inr p \<and> generate_content e p = Inr t \<longrightarrow>
        generate_mermaid_with_gemini e r d =
          (if recognized_header (lower (strip l)) then Inr t
           else Inl (HTTPException 502 (''Gemini API error: '' @
                  http_str e 502 ''Gemini API did not return valid Mermaid syntax'')))"
    using v splitlines_nonempty_text [OF sl]
    by (auto simp: generate_result gemini_try_body_def)
  from 1 2 3 4 show ?thesis by blast
qed


theorem validator_first_line_witness:
  "splitlines (''Graph TD'' @ [LF] @ ''A-->B'') = ''Graph TD'' # [''A-->B''] \<and>
   strip ''Graph TD'' \<noteq> [] \<and>
   first_nonblank (splitlines (''Graph TD'' @ [LF] @ ''A-->B'')) = Some ''Graph TD'' \<and>
   validate_response (''Graph TD'' @ [LF] @ ''A-->B'') = Inr (''Graph TD'' @ [LF] @ ''A-->B'') \<and>
   generate_mermaid_with_gemini (stub_env (''Graph TD'' @ [LF] @ ''A-->B'')) ''r'' ''flowchart'' =
     Inr (''Graph TD'' @ [LF] @ ''A-->B'')"
proof -
  have a: "splitlines (''Graph TD'' @ [LF] @ ''A-->B'') = ''Graph TD'' # [''A-->B'']"
    by code_simp
  have b: "strip ''Graph TD'' \<noteq> []" by code_simp
  have c: "recognized_header (lower (strip ''Graph TD''))" by code_simp
  have d: "resolve_diagram_type ''flowchart'' = Inr ''Flowchart''" by code_simp
  have e: "prompt_file (stub_env (''Graph TD'' @ [LF] @ ''A-->B'')) = Inr ''Generate a Mermaid diagram.''"
    by (simp add: stub_env_def)
  have f: "generate_content (stub_env (''Graph TD'' @ [LF] @ ''A-->B'')) ''Generate a Mermaid diagram.'' =
      Inr (''Graph TD'' @ [LF] @ ''A-->B'')"
    by (simp add: stub_env_def)
  from validator_first_line [OF a b, of "''flowchart''" "''Flowchart''"
      "stub_env (''Graph TD'' @ [LF] @ ''A-->B'')" "''Generate a Mermaid diagram.''" "''r''"]
    a b c d e f
  show ?thesis by simp
qed

theorem validator_counterexample:
  "first_nonblank (splitlines ([LF] @ ''graph TD'')) = Some ''graph TD'' \<and>
   recognized_header (lower (strip ''graph TD'')) \<and>
   validate_response ([LF] @ ''graph TD'') =
     Inl (HTTPException 502 ''Gemini API did not return valid Mermaid syntax'') \<and>
   validate_response ''I cannot help with that.'' =
     Inl (HTTPException 502 ''Gemini API did not return valid Mermaid syntax'') \<and>
   validate_response ''pie title Pets'' = validate_response ''I cannot help with that.''"
  by code_simp

text \<open>
  C3 (amended). For every generation result that is empty or consists only of whitespace
  the endpoint answers with status 502 and a detail that starts with
  \<open>Gemini API error:\<close>. When the result is the empty string the cause is the distinct
  exception \<open>HTTPException(502, 'Gemini API returned empty response')\<close>, whose text
  follows that prefix.
\<close>

theorem empty_generation_result:
  "resolve_diagram_type d = Inr k \<Longrightarrow> prompt_file e = Inr p \<Longrightarrow>
   generate_content e p = Inr t \<Longrightarrow> strip t = [] \<Longrightarrow>
     (\<exists>m. snd (receive_diagram e fd \<lparr>requirement = r, diagram_type = d\<rparr>) =
          Inl (HTTPException 502 (''Gemini API error: '' @ m))) \<and>
     (t = [] \<longrightarrow>
        gemini_try_body e p = Inl (HTTPException 502 ''Gemini API returned empty response'') \<and>
        snd (receive_diagram e fd \<lparr>requirement = r, diagram_type = d\<rparr>) =
          Inl (HTTPException 502 (''Gemini API error: '' @
                 http_str e 502 ''Gemini API returned empty response'')))"
proof -
  assume rd: "resolve_diagram_type d = Inr k" and pf: "prompt_file e = Inr p"
    and gc: "generate_content e p = Inr t" and st: "strip t = []"
  have tb: "gemini_try_body e p =
      (if t = [] then Inl (HTTPException 502 ''Gemini API returned empty response'')
       else Inl (HTTPException 502 ''Gemini API did not return valid Mermaid syntax''))"
    using gc st by (simp add: gemini_try_body_def validate_blank)
  have rr: "snd (receive_diagram e fd \<lparr>requirement = r, diagram_type = d\<rparr>) =
      Inl (HTTPException 502 (''Gemini API error: '' @
        http_str e 502 (if t = [] then ''Gemini API returned empty response''
                        else ''Gemini API did not return valid Mermaid syntax'')))"
    by (simp add: receive_diagram_result generate_result [OF rd pf] tb)
  from tb rr show ?thesis by auto
qed

theorem empty_generation_result_witness:
  "resolve_diagram_type ''flowchart'' = Inr ''Flowchart'' \<and>
   prompt_file (stub_env []) = Inr ''Generate a Mermaid diagram.'' \<and>
   generate_content (stub_env []) ''Generate a Mermaid diagram.'' = Inr [] \<and>
   strip [] = [] \<and>
   snd (receive_diagram (stub_env []) Map.empty \<lparr>requirement = ''r'', diagram_type = ''flowchart''\<rparr>) =
     Inl (HTTPException 502 ''Gemini API error: 502: Gemini API returned empty response'')"
proof -
  have a: "resolve_diagram_type ''flowchart'' = Inr ''Flowchart''" by code_simp
  have b: "prompt_file (stub_env []) = Inr ''Generate a Mermaid diagram.''"
    by (simp add: stub_env_def)
  have c: "generate_content (stub_env []) ''Generate a Mermaid diagram.'' = Inr []"
    by (simp add: stub_env_def)
  have d: "http_str (stub_env []) 502 ''Gemini API returned empty response'' =
      ''502: Gemini API returned empty response''"
    by code_simp
  from empty_generation_result [OF a b c strip_Nil, of Map.empty "''r''"] a b c d strip_Nil
  show ?thesis by simp
qed

theorem empty_generation_counterexample:
  "strip '' '' = [] \<and>
   gemini_try_body (stub_env '' '') ''Generate a Mermaid diagram.'' =
     Inl (HTTPException 502 ''Gemini API did not return valid Mermaid syntax'') \<and>
   snd (receive_diagram (stub_env '' '') Map.empty
          \<lparr>requirement = ''r'', diagram_type = ''flowchart''\<rparr>) =
     Inl (HTTPException 502
       ''Gemini API error: 502: Gemini API did not return valid Mermaid syntax'')"
  by code_simp

section \<open>The serializer and its round trip\<close>

lemma hex_val_hex_digit: "k < 16 \<Longrightarrow> hex_val (hex_digit k) = Some k"
  by (auto simp: hex_val_def hex_digit_def Let_def)

lemma hex4_escape:
  "hex4 (CHR ''0'') (CHR ''0'') (hex_digit (n div 16)) (hex_digit (n mod 16)) = Some n"
  if "n < 256" for n :: nat
proof -
  have a: "hex_val (CHR ''0'') = Some 0" by (simp add: hex_val_def)
  from that have "n div 16 < 16" by simp
  then have b: "hex_val (hex_digit (n div 16)) = Some (n div 16)" by (rule hex_val_hex_digit)
  have c: "hex_val (hex_digit (n mod 16)) = Some (n mod 16)" by (rule hex_val_hex_digit) simp
  show ?thesis by (simp add: hex4_def a b c)
qed

lemma cons_result_Some: "cons_result c (Some (s, r)) = Some (c # s, r)"
  by (simp add: cons_result_def)

lemma char_of_code: "(of_char c :: nat) = n \<Longrightarrow> c = char_of n"
  by auto

lemma scan_escape:
  assumes "T \<noteq> []"
  shows "scanstring (json_escape_char c @ T) = cons_result c (scanstring T)"
proof -
  from assms obtain e cs where T: "T = e # cs" by (cases T) auto
  let ?n = "of_char c :: nat"
  consider (dq) "c = DQ" | (bs) "c = BSL" | (nl) "?n = 10" | (cr) "?n = 13" | (tab) "?n = 9"
    | (b) "?n = 8" | (f) "?n = 12"
    | (plain) "c \<noteq> DQ" "c \<noteq> BSL" "?n \<notin> {8, 9, 10, 12, 13}" "32 \<le> ?n" "?n \<le> 126"
    | (uni) "c \<noteq> DQ" "c \<noteq> BSL" "?n \<notin> {8, 9, 10, 12, 13}" "\<not> (32 \<le> ?n \<and> ?n \<le> 126)"
    by auto
  then show ?thesis
  proof cases
    case dq
    then show ?thesis by (simp add: json_escape_char_def unescape_def DQ_def BSL_def)
  next
    case bs
    then show ?thesis by (simp add: json_escape_char_def unescape_def DQ_def BSL_def)
  next
    case nl
    then have "(of_char c :: nat) = of_char (CHR 0x0A)" by simp
    then have "c = CHR 0x0A" by (rule of_char_eqI)
    then show ?thesis by (simp add: json_escape_char_def unescape_def DQ_def BSL_def)
  next
    case cr
    then have "(of_char c :: nat) = of_char (CHR 0x0D)" by simp
    then have "c = CHR 0x0D" by (rule of_char_eqI)
    then show ?thesis by (simp add: json_escape_char_def unescape_def DQ_def BSL_def)
  next
    case tab
    then have "(of_char c :: nat) = of_char (CHR 0x09)" by simp
    then have "c = CHR 0x09" by (rule of_char_eqI)
    then show ?thesis by (simp add: json_escape_char_def unescape_def DQ_def BSL_def)
  next
    case b
    then have "(of_char c :: nat) = of_char (CHR 0x08)" by simp
    then have "c = CHR 0x08" by (rule of_char_eqI)
    then show ?thesis by (simp add: json_escape_char_def unescape_def DQ_def BSL_def)
  next
    case f
    then have "(of_char c :: nat) = of_char (CHR 0x0C)" by simp
    then have "c = CHR 0x0C" by (rule of_char_eqI)
    then show ?thesis by (simp add: json_escape_char_def unescape_def DQ_def BSL_def)
  next
    case plain
    then show ?thesis using T by (simp add: json_escape_char_def Let_def)
  next
    case uni
    then have esc: "json_escape_char c =
        [BSL, CHR ''u'', CHR ''0'', CHR ''0'', hex_digit (?n div 16), hex_digit (?n mod 16)]"
      by (auto simp: json_escape_char_def Let_def)
    have "scanstring (BSL # CHR ''u'' # CHR ''0'' # CHR ''0'' # hex_digit (?n div 16) #
        hex_digit (?n mod 16) # T) = cons_result (char_of ?n) (scanstring T)"
      using hex4_escape [of ?n] by (simp add: BSL_def DQ_def)
    then show ?thesis by (simp add: esc)
  qed
qed

lemma scan_close: "scanstring (DQ # rest) = Some ([], rest)"
  by (cases rest) simp_all

lemma scan_roundtrip:
  "scanstring (concat (map json_escape_char s) @ DQ # rest) = Some (s, rest)"
  by (induction s) (simp_all add: scan_close scan_escape cons_result_Some)


lemma expect_here: "\<not> is_json_ws c \<Longrightarrow> expect c (c # rest) = Some rest"
  by (simp add: expect_def)

lemma not_json_ws:
  "\<not> is_json_ws (CHR ''{'')" "\<not> is_json_ws DQ" "\<not> is_json_ws (CHR '':'')"
  "\<not> is_json_ws (CHR ''}'')"
  by (simp_all add: is_json_ws_def DQ_def)

lemma loads_dumps:
  "json_loads_member (''{'' @ json_dumps_str k @ '':'' @ json_dumps_str v @ ''}'') = Some (k, v)"
  by (simp add: json_loads_member_def json_dumps_str_def expect_here not_json_ws scan_roundtrip)

lemma convertToJson_shape:
  "convertToJson x =
     ''{'' @ json_dumps_str ''mermaid_syntax'' @ '':'' @
     json_dumps_str (spec_normalize (strip x)) @ ''}''"
  by (simp add: convertToJson_def spec_normalize_def Let_def)

lemma dumps_key: "json_dumps_str ''mermaid_syntax'' = [DQ] @ ''mermaid_syntax'' @ [DQ]"
  by (simp add: json_dumps_str_def json_escape_char_def DQ_def BSL_def)

lemma strip_last_nonspace: "strip t \<noteq> [] \<Longrightarrow> \<not> is_space (last (strip t))"
proof -
  assume "strip t \<noteq> []"
  then have "dropWhile is_space (rev (lstrip t)) \<noteq> []" by (simp add: strip_def rstrip_def)
  then have "\<not> is_space (hd (dropWhile is_space (rev (lstrip t))))" by (rule hd_dropWhile)
  then show ?thesis
    using \<open>dropWhile is_space (rev (lstrip t)) \<noteq> []\<close>
    by (simp add: strip_def rstrip_def last_rev)
qed

lemma strip_idem: "strip (strip t) = strip t"
proof (cases "strip t")
  case Nil
  then show ?thesis by (simp add: strip_Nil)
next
  case (Cons a y)
  then have ne: "strip t \<noteq> []" by simp
  from Cons have "\<not> is_space a" by (rule strip_head_nonspace)
  with Cons have l: "lstrip (strip t) = strip t" by (simp add: lstrip_nonspace)
  from rstrip_append [OF ne strip_last_nonspace [OF ne], of "[]"]
  have "rstrip (strip t) = strip t" by (simp add: rstrip_def)
  with l show ?thesis by (simp add: strip_def [of "strip t"])
qed

text \<open>
  C5 (amended). For every diagram text \<open>x\<close> the serializer first trims the whole text,
  then splits it into lines, trims each line, joins the lines with a single newline and
  emits the compact object \<open>{"mermaid_syntax":<joined text>}\<close>, with no whitespace between
  the JSON tokens. Decoding the output and reading the field \<open>mermaid_syntax\<close> yields
  exactly that normalisation, for every \<open>x\<close>; the serializer has no failure path. On a
  text that is already trimmed, as the endpoint passes it, this is the line-trimmed,
  newline-joined text of the specification.
\<close>

theorem serializer_roundtrip:
  "convertToJson x =
     ''{'' @ [DQ] @ ''mermaid_syntax'' @ [DQ] @ '':'' @
     json_dumps_str (spec_normalize (strip x)) @ ''}'' \<and>
   decode_mermaid_syntax (convertToJson x) = Some (spec_normalize (strip x)) \<and>
   decode_mermaid_syntax (convertToJson (strip x)) = Some (spec_normalize (strip x))"
proof -
  have 1: "convertToJson x =
     ''{'' @ [DQ] @ ''mermaid_syntax'' @ [DQ] @ '':'' @
     json_dumps_str (spec_normalize (strip x)) @ ''}''"
    using convertToJson_shape [of x] by (simp add: dumps_key)
  have 2: "decode_mermaid_syntax (convertToJson y) = Some (spec_normalize (strip y))" for y
    by (simp only: convertToJson_shape decode_mermaid_syntax_def loads_dumps) simp
  from 1 2 [of x] 2 [of "strip x"] show ?thesis by (simp add: strip_idem)
qed

theorem serializer_counterexample:
  "spec_normalize ([LF] @ ''A'') = [LF] @ ''A'' \<and>
   decode_mermaid_syntax (convertToJson ([LF] @ ''A'')) = Some ''A'' \<and>
   convertToJson ([LF] @ ''A'') \<noteq>
     ''{'' @ json_dumps_str ''mermaid_syntax'' @ '':'' @
     json_dumps_str (spec_normalize ([LF] @ ''A'')) @ ''}''"
  by code_simp

lemma serializer_example:
  "decode_mermaid_syntax (convertToJson (''graph TD'' @ [LF] @ ''  A-->B'')) =
     Some (''graph TD'' @ [LF] @ ''A-->B'')"
  by code_simp

section \<open>Fenced model output\<close>

text \<open>
  C4, at the fenced text of the specification (a \<open>```mermaid\<close> line, \<open>graph TD\<close>,
  \<open>A-->B\<close>, a closing fence line). \<open>sanitize_candidate\<close> would remove the fences and the
  classifier would then return \<open>flowchart\<close> with the body unchanged; but the endpoint
  never calls \<open>sanitize_candidate\<close>, so the validator reads the fence line as the first
  line and the request ends in status 502.
\<close>

theorem fenced_output_rejected:
  "sanitize_candidate fenced_example = ''graph TD'' @ [LF] @ ''A-->B'' \<and>
   clean_mermaid_code (sanitize_candidate fenced_example) =
     Inr \<lparr>art_type = ''flowchart'', art_code = ''graph TD'' @ [LF] @ ''A-->B''\<rparr> \<and>
   validate_response fenced_example =
     Inl (HTTPException 502 ''Gemini API did not return valid Mermaid syntax'') \<and>
   generate_mermaid_with_gemini (stub_env fenced_example) ''r'' ''flowchart'' =
     Inl (HTTPException 502
       ''Gemini API error: 502: Gemini API did not return valid Mermaid syntax'') \<and>
   snd (receive_diagram (stub_env fenced_example) Map.empty
          \<lparr>requirement = ''r'', diagram_type = ''flowchart''\<rparr>) =
     Inl (HTTPException 502
       ''Gemini API error: 502: Gemini API did not return valid Mermaid syntax'')"
  by code_simp

section \<open>The prompt\<close>

text \<open>
  C7, at two requests that differ in their requirement text. The prompt handed to the
  capability is the content of the prompt file, whatever the requirement and the resolved
  kind are: \<open>generate_mermaid_with_gemini\<close> does not depend on its \<open>requirement\<close>
  argument, and a capability that echoes its prompt returns the same text for both
  requests.
\<close>

theorem prompt_ignores_requirement:
  "generate_mermaid_with_gemini e r1 d = generate_mermaid_with_gemini e r2 d \<and>
   generate_mermaid_with_gemini echo_env ''Driver must be alerted'' ''flowchart'' =
     Inr (''graph TD'' @ [LF] @ ''Generate a Mermaid diagram.'') \<and>
   generate_mermaid_with_gemini echo_env ''Doors must lock'' ''flowchart'' =
     Inr (''graph TD'' @ [LF] @ ''Generate a Mermaid diagram.'')"
proof -
  have 1: "generate_mermaid_with_gemini e r1 d = generate_mermaid_with_gemini e r2 d"
    by (simp add: generate_mermaid_with_gemini_def)
  have 2: "generate_mermaid_with_gemini echo_env ''Driver must be alerted'' ''flowchart'' =
     Inr (''graph TD'' @ [LF] @ ''Generate a Mermaid diagram.'')"
    by code_simp
  have 3: "generate_mermaid_with_gemini echo_env ''Doors must lock'' ''flowchart'' =
     Inr (''graph TD'' @ [LF] @ ''Generate a Mermaid diagram.'')"
    by code_simp
  from 1 2 3 show ?thesis by blast
qed

section \<open>The failure taxonomy of the endpoint\<close>

lemma static_success:
  "\<exists>resp. snd (receive_diagram_static fd inp) = Some resp \<and> status resp = ''success'' \<and>
      resp_requirement resp = requirement inp \<and> resp_diagram_type resp = diagram_type inp"
proof -
  have "clean_mermaid_code static_mermaid =
      Inr \<lparr>art_type = ''flowchart'', art_code = strip static_mermaid\<rparr>"
    by code_simp
  then show ?thesis
    by (simp add: receive_diagram_static_def static_try_body_def get_item_def Let_def)
qed

lemma strip_decompose: "\<exists>W R. F = W @ strip F @ R \<and> (\<forall>c \<in> set W. is_space c)"
proof -
  have a: "F = takeWhile is_space F @ lstrip F" by (simp add: lstrip_def)
  obtain R where "lstrip F = strip F @ R" using rstrip_prefix [of "lstrip F"]
    by (auto simp: strip_def)
  with a have "F = takeWhile is_space F @ strip F @ R" by simp
  moreover have "\<forall>c \<in> set (takeWhile is_space F). is_space c" by (meson set_takeWhileD)
  ultimately show ?thesis by blast
qed

lemma raw_first_line_header:
  assumes h: "list_all is_lower_ascii h" "h \<noteq> []"
    and a: "startswith (lower (strip (takeWhile P t))) h"
  shows "startswith (lower (strip t)) h"
proof -
  let ?F = "takeWhile P t"
  let ?k = "length h"
  define p where "p = take ?k (strip ?F)"
  define q where "q = drop ?k (strip ?F)"
  have S: "strip ?F = p @ q" by (simp add: p_def q_def)
  from a have lp: "lower p = h" by (simp add: startswith_def lower_def p_def take_map)
  with h(2) have pne: "p \<noteq> []" by (auto simp: lower_def)
  have ns: "\<forall>c \<in> set p. \<not> is_space c"
  proof
    fix c assume "c \<in> set p"
    then have "lower_char c \<in> set h" using lp by (auto simp: lower_def)
    with h(1) have "is_lower_ascii (lower_char c)" by (simp add: list_all_iff)
    then show "\<not> is_space c" by (rule lower_preimage_nonspace)
  qed
  obtain W R where F: "?F = W @ strip ?F @ R" and W: "\<forall>c \<in> set W. is_space c"
    using strip_decompose by blast
  have "t = ?F @ dropWhile P t" by simp
  with F S have t: "t = W @ p @ (q @ R @ dropWhile P t)" by (metis append.assoc)
  define Z where "Z = q @ R @ dropWhile P t"
  from pne obtain c p' where p: "p = c # p'" by (cases p) auto
  with ns have "\<not> is_space c" by simp
  with W p have "dropWhile is_space (W @ p @ Z) = p @ Z" by (simp add: dropWhile_append)
  then have "lstrip t = p @ Z" using t by (simp add: lstrip_def Z_def)
  moreover from ns pne have "\<not> is_space (last p)" by simp
  ultimately have "strip t = p @ rstrip Z" using pne by (simp add: strip_def rstrip_append)
  then have "lower (strip t) = h @ lower (rstrip Z)" using lp by (simp add: lower_append)
  then show ?thesis by (simp add: startswith_self_append)
qed

lemma validated_classifies:
  assumes "validate_response t = Inr t"
  shows "\<exists>ty. clean_mermaid_code t = Inr \<lparr>art_type = ty, art_code = strip t\<rparr>"
proof -
  from assms obtain l ls where sl: "splitlines t = l # ls"
    by (auto simp: validate_response_def split: list.splits)
  then have tne: "t \<noteq> []" by (rule splitlines_nonempty_text)
  from sl splitlines_head [OF tne] have l: "l = takeWhile (\<lambda>c. \<not> is_linebreak c) t" by auto
  from assms sl have "recognized_header (lower (strip l))"
    by (simp add: validate_response_Cons split: if_splits)
  then obtain h where hh: "h \<in> set [''graph'', ''flowchart'', ''sequencediagram'', ''classdiagram'']"
    and st: "startswith (lower (strip l)) h"
    by (auto simp: recognized_header_def)
  from hh have la: "list_all is_lower_ascii h" and hne: "h \<noteq> []"
    using headers_lower_ascii by auto
  from raw_first_line_header [OF la hne] st l have "startswith (lower (strip t)) h" by simp
  then have "startswith (lower (strip (takeWhile (\<lambda>c. c \<noteq> LF) (strip t)))) h"
    using first_line_header [of "\<lambda>c. c = LF" h t, OF LF_is_space la hne] by simp
  with hh have "spec_header_type (lower (strip (takeWhile (\<lambda>c. c \<noteq> LF) (strip t)))) \<noteq> None"
    by (auto simp: spec_header_type_def)
  then obtain ty where
    "spec_header_type (lower (strip (takeWhile (\<lambda>c. c \<noteq> LF) (strip t)))) = Some ty" by auto
  then have "clean_mermaid_code t = Inr \<lparr>art_type = ty, art_code = strip t\<rparr>"
    by (simp add: clean_Inr_iff)
  then show ?thesis by blast
qed


lemma validate_Nil: "validate_response [] \<noteq> Inr []"
  by (simp add: validate_response_def splitlines_Nil)

lemma try_body_cases:
  assumes "generate_content e p = Inr t"
  shows "gemini_try_body e p =
     (if validate_response t = Inr t then Inr t
      else Inl (HTTPException 502
        (if t = [] then ''Gemini API returned empty response''
         else ''Gemini API did not return valid Mermaid syntax'')))"
proof (cases "t = []")
  case True
  with assms validate_Nil show ?thesis by (simp add: gemini_try_body_def)
next
  case False
  then obtain l ls where "splitlines t = l # ls" using splitlines_head by blast
  with assms False show ?thesis by (simp add: gemini_try_body_def validate_response_Cons)
qed

lemma generate_cases:
  "generate_mermaid_with_gemini e r d =
     (case resolve_diagram_type d of
        Inl x \<Rightarrow> Inl (HTTPException 400 (''Unsupported diagram type: '' @ d))
      | Inr k \<Rightarrow>
          (case prompt_file e of
             Inl f \<Rightarrow> Inl (exn_of_read_failure f)
           | Inr p \<Rightarrow>
               (case generate_content e p of
                  Inl exc \<Rightarrow> Inl (HTTPException 502 (''Gemini API error: '' @ str_exc e exc))
                | Inr t \<Rightarrow>
                    if validate_response t = Inr t then Inr t
                    else Inl (HTTPException 502 (''Gemini API error: '' @
                      (if t = [] then http_str e 502 ''Gemini API returned empty response''
                       else http_str e 502 ''Gemini API did not return valid Mermaid syntax'')))))) "
proof (cases "resolve_diagram_type d")
  case (Inl x)
  then show ?thesis
    by (auto simp: generate_mermaid_with_gemini_def resolve_refines_spec split: option.splits)
next
  case (Inr k)
  show ?thesis
  proof (cases "prompt_file e")
    case (Inl f)
    with \<open>resolve_diagram_type d = Inr k\<close> show ?thesis
      by (simp add: generate_mermaid_with_gemini_def)
  next
    case (Inr p)
    show ?thesis
    proof (cases "generate_content e p")
      case (Inl exc)
      with Inr \<open>resolve_diagram_type d = Inr k\<close> show ?thesis
        by (simp add: generate_mermaid_with_gemini_def gemini_try_body_def)
    next
      case (Inr t)
      with \<open>prompt_file e = Inr p\<close> \<open>resolve_diagram_type d = Inr k\<close> show ?thesis
        by (simp add: generate_mermaid_with_gemini_def try_body_cases [OF Inr])
    qed
  qed
qed

text \<open>
  C8 (amended). For every request to the main endpoint: an unsupported diagram kind yields
  status 400 with a detail naming the caller's string; an exception of the generation
  capability, an empty result and a result that fails validation yield status 502 with a
  detail that starts with \<open>Gemini API error:\<close>; a failure to open or read the prompt
  file that is not a \<open>ValueError\<close> yields status 500 with the detail
  \<open>Unexpected error occurred\<close>; every failure is an HTTP error of status 400, 502 or 500
  whose detail is not empty (a decoding failure of the prompt file apart), and the answer
  is a success exactly when the kind resolves, the prompt file reads and the capability's
  text passes validation. The static variant resolves and generates nothing and answers
  every request with status \<open>success\<close>.
\<close>

theorem endpoint_failure_taxonomy:
  "let res = snd (receive_diagram e fd \<lparr>requirement = r, diagram_type = d\<rparr>) in
   (resolve_diagram_type d = Inl x \<longrightarrow>
      res = Inl (HTTPException 400 (''Unsupported diagram type: '' @ d))) \<and>
   (resolve_diagram_type d = Inr k \<and> prompt_file e = Inr p \<and> generate_content e p = Inl exc \<longrightarrow>
      res = Inl (HTTPException 502 (''Gemini API error: '' @ str_exc e exc))) \<and>
   (resolve_diagram_type d = Inr k \<and> prompt_file e = Inr p \<and> generate_content e p = Inr t \<and>
    validate_response t \<noteq> Inr t \<longrightarrow>
      (\<exists>m. res = Inl (HTTPException 502 (''Gemini API error: '' @ m)))) \<and>
   (resolve_diagram_type d = Inr k \<and> prompt_file e = Inl (OSFailure m) \<longrightarrow>
      res = Inl (HTTPException 500 ''Unexpected error occurred'')) \<and>
   (res = Inl y \<longrightarrow> (\<exists>s u. y = HTTPException s u \<and> s \<in> {400, 502, 500} \<and>
      ((\<forall>v. prompt_file e \<noteq> Inl (DecodeFailure v)) \<longrightarrow> u \<noteq> []))) \<and>
   ((\<exists>resp. res = Inr resp) =
      (\<exists>k p t. resolve_diagram_type d = Inr k \<and> prompt_file e = Inr p \<and>
         generate_content e p = Inr t \<and> validate_response t = Inr t)) \<and>
   (\<exists>resp. snd (receive_diagram_static fd inp) = Some resp \<and> status resp = ''success'')"
proof -
  define res where "res = snd (receive_diagram e fd \<lparr>requirement = r, diagram_type = d\<rparr>)"
  have R: "res =
     (case generate_mermaid_with_gemini e r d of
        Inl x \<Rightarrow> Inl (receive_handlers x)
      | Inr mermaid \<Rightarrow>
          (case clean_mermaid_code mermaid of
             Inl x \<Rightarrow> Inl (receive_handlers x)
           | Inr result \<Rightarrow>
               Inr \<lparr>status = ''success'',
                    resp_requirement = r,
                    resp_diagram_type = d,
                    detected_diagram_type = art_type result,
                    clean_mermaid = art_code result,
                    json_mermaid = convertToJson (art_code result)\<rparr>))"
    unfolding res_def by (simp add: receive_diagram_result split: sum.splits)
  have 1: "resolve_diagram_type d = Inl x \<longrightarrow>
      res = Inl (HTTPException 400 (''Unsupported diagram type: '' @ d))"
    by (simp add: R generate_cases)
  have 2: "resolve_diagram_type d = Inr k \<and> prompt_file e = Inr p \<and> generate_content e p = Inl exc \<longrightarrow>
      res = Inl (HTTPException 502 (''Gemini API error: '' @ str_exc e exc))"
    by (simp add: R generate_cases)
  have 3: "resolve_diagram_type d = Inr k \<and> prompt_file e = Inr p \<and> generate_content e p = Inr t \<and>
    validate_response t \<noteq> Inr t \<longrightarrow>
      (\<exists>m. res = Inl (HTTPException 502 (''Gemini API error: '' @ m)))"
    by (simp add: R generate_cases)
  have 4: "resolve_diagram_type d = Inr k \<and> prompt_file e = Inl (OSFailure m) \<longrightarrow>
      res = Inl (HTTPException 500 ''Unexpected error occurred'')"
    by (simp add: R generate_cases)
  have C: "\<exists>a. clean_mermaid_code t' = Inr a" if "validate_response t' = Inr t'" for t'
    using validated_classifies [OF that] by blast
  have 5: "res = Inl y \<longrightarrow> (\<exists>s u. y = HTTPException s u \<and> s \<in> {400, 502, 500} \<and>
      ((\<forall>v. prompt_file e \<noteq> Inl (DecodeFailure v)) \<longrightarrow> u \<noteq> []))"
  proof
    assume a: "res = Inl y"
    show "\<exists>s u. y = HTTPException s u \<and> s \<in> {400, 502, 500} \<and>
      ((\<forall>v. prompt_file e \<noteq> Inl (DecodeFailure v)) \<longrightarrow> u \<noteq> [])"
    proof (cases "resolve_diagram_type d")
      case (Inl x')
      with a show ?thesis by (auto simp: R generate_cases)
    next
      case (Inr k')
      show ?thesis
      proof (cases "prompt_file e")
        case (Inl f)
        with Inr a show ?thesis by (cases f) (auto simp: R generate_cases)
      next
        case (Inr p')
        show ?thesis
        proof (cases "generate_content e p'")
          case (Inl exc')
          with Inr \<open>resolve_diagram_type d = Inr k'\<close> a show ?thesis
            by (auto simp: R generate_cases)
        next
          case (Inr t')
          with \<open>prompt_file e = Inr p'\<close> \<open>resolve_diagram_type d = Inr k'\<close> a C [of t']
          show ?thesis
            by (auto simp: R generate_cases split: if_splits)
        qed
      qed
    qed
  qed
  have 6: "(\<exists>resp. res = Inr resp) =
      (\<exists>k p t. resolve_diagram_type d = Inr k \<and> prompt_file e = Inr p \<and>
         generate_content e p = Inr t \<and> validate_response t = Inr t)"
  proof
    assume "\<exists>resp. res = Inr resp"
    then show "\<exists>k p t. resolve_diagram_type d = Inr k \<and> prompt_file e = Inr p \<and>
         generate_content e p = Inr t \<and> validate_response t = Inr t"
      by (auto simp: R generate_cases split: sum.splits if_splits)
  next
    assume "\<exists>k p t. resolve_diagram_type d = Inr k \<and> prompt_file e = Inr p \<and>
         generate_content e p = Inr t \<and> validate_response t = Inr t"
    then obtain k p t where h: "resolve_diagram_type d = Inr k" "prompt_file e = Inr p"
      "generate_content e p = Inr t" "validate_response t = Inr t" by blast
    from C [OF h(4)] obtain a where "clean_mermaid_code t = Inr a" by blast
    with h show "\<exists>resp. res = Inr resp" by (simp add: R generate_cases)
  qed
  have 7: "\<exists>resp. snd (receive_diagram_static fd inp) = Some resp \<and> status resp = ''success''"
    using static_success [of fd inp] by blast
  from 1 2 3 4 5 6 7 show ?thesis unfolding res_def Let_def by blast
qed

theorem endpoint_failure_taxonomy_witness:
  "snd (receive_diagram (stub_env ''graph TD'') Map.empty
      \<lparr>requirement = ''r'', diagram_type = ''pie''\<rparr>) =
     Inl (HTTPException 400 ''Unsupported diagram type: pie'') \<and>
   snd (receive_diagram failing_env Map.empty
      \<lparr>requirement = ''r'', diagram_type = ''flowchart''\<rparr>) =
     Inl (HTTPException 502 ''Gemini API error: quota exceeded'') \<and>
   (\<exists>m. snd (receive_diagram (stub_env ''I cannot help with that.'') Map.empty
      \<lparr>requirement = ''r'', diagram_type = ''flowchart''\<rparr>) =
     Inl (HTTPException 502 (''Gemini API error: '' @ m))) \<and>
   snd (receive_diagram missing_prompt_env Map.empty
      \<lparr>requirement = ''r'', diagram_type = ''flowchart''\<rparr>) =
     Inl (HTTPException 500 ''Unexpected error occurred'') \<and>
   (\<exists>resp. snd (receive_diagram (stub_env ''graph TD'') Map.empty
      \<lparr>requirement = ''r'', diagram_type = ''flowchart''\<rparr>) = Inr resp)"
proof -
  have pie: "resolve_diagram_type ''pie'' =
      Inl (HTTPException 400 ''Unsupported diagram type: pie'')" by code_simp
  have fl: "resolve_diagram_type ''flowchart'' = Inr ''Flowchart''" by code_simp
  have pf: "prompt_file (stub_env out) = Inr ''Generate a Mermaid diagram.''" for out
    by (simp add: stub_env_def)
  have gc: "generate_content (stub_env out) ''Generate a Mermaid diagram.'' = Inr out" for out
    by (simp add: stub_env_def)
  have fpf: "prompt_file failing_env = Inr ''Generate a Mermaid diagram.''"
    by (simp add: failing_env_def)
  have fgc: "generate_content failing_env ''Generate a Mermaid diagram.'' =
      Inl (OtherException ''quota exceeded'')"
    by (simp add: failing_env_def)
  have mpf: "prompt_file missing_prompt_env = Inl (OSFailure ''No such file or directory'')"
    by (simp add: missing_prompt_env_def)
  have bad: "validate_response ''I cannot help with that.'' \<noteq> Inr ''I cannot help with that.''"
    by code_simp
  have good: "validate_response ''graph TD'' = Inr ''graph TD''" by code_simp
  from endpoint_failure_taxonomy [where e = "stub_env ''graph TD''" and fd = Map.empty
      and r = "''r''" and d = "''pie''"
      and x = "HTTPException 400 ''Unsupported diagram type: pie''", unfolded Let_def] pie
  have 1: "snd (receive_diagram (stub_env ''graph TD'') Map.empty
      \<lparr>requirement = ''r'', diagram_type = ''pie''\<rparr>) =
     Inl (HTTPException 400 ''Unsupported diagram type: pie'')" by simp
  from endpoint_failure_taxonomy [where e = failing_env and fd = Map.empty
      and r = "''r''" and d = "''flowchart''" and k = "''Flowchart''"
      and p = "''Generate a Mermaid diagram.''"
      and exc = "OtherException ''quota exceeded''", unfolded Let_def] fl fpf fgc
  have 2: "snd (receive_diagram failing_env Map.empty
      \<lparr>requirement = ''r'', diagram_type = ''flowchart''\<rparr>) =
     Inl (HTTPException 502 ''Gemini API error: quota exceeded'')" by simp
  from endpoint_failure_taxonomy [where e = "stub_env ''I cannot help with that.''"
      and fd = Map.empty and r = "''r''" and d = "''flowchart''" and k = "''Flowchart''"
      and p = "''Generate a Mermaid diagram.''" and t = "''I cannot help with that.''",
      unfolded Let_def] fl pf gc bad
  have 3: "\<exists>m. snd (receive_diagram (stub_env ''I cannot help with that.'') Map.empty
      \<lparr>requirement = ''r'', diagram_type = ''flowchart''\<rparr>) =
     Inl (HTTPException 502 (''Gemini API error: '' @ m))" by blast
  from endpoint_failure_taxonomy [where e = missing_prompt_env and fd = Map.empty
      and r = "''r''" and d = "''flowchart''" and k = "''Flowchart''"
      and m = "''No such file or directory''", unfolded Let_def] fl mpf
  have 4: "snd (receive_diagram missing_prompt_env Map.empty
      \<lparr>requirement = ''r'', diagram_type = ''flowchart''\<rparr>) =
     Inl (HTTPException 500 ''Unexpected error occurred'')" by blast
  from endpoint_failure_taxonomy [where e = "stub_env ''graph TD''" and fd = Map.empty
      and r = "''r''" and d = "''flowchart''", unfolded Let_def] fl pf gc good
  have 5: "\<exists>resp. snd (receive_diagram (stub_env ''graph TD'') Map.empty
      \<lparr>requirement = ''r'', diagram_type = ''flowchart''\<rparr>) = Inr resp" by blast
  from 1 2 3 4 5 show ?thesis by blast
qed

theorem taxonomy_counterexample:
  "resolve_diagram_type ''pie'' = Inl (HTTPException 400 ''Unsupported diagram type: pie'') \<and>
   map_option status (snd (receive_diagram_static Map.empty
      \<lparr>requirement = ''r'', diagram_type = ''pie''\<rparr>)) = Some ''success'' \<and>
   snd (receive_diagram undecodable_env Map.empty
      \<lparr>requirement = ''r'', diagram_type = ''flowchart''\<rparr>) =
     Inl (HTTPException 502 ''invalid start byte'')"
  by code_simp

section \<open>The shared dictionary and concurrent requests\<close>

text \<open>
  A handler leaves its two inputs in \<open>fetched_data\<close> under the fixed keys and reads them
  back from there; since it writes before it reads and runs whole, its answer does not
  depend on what an earlier request left in the dictionary.
\<close>

lemma receive_diagram_store:
  "fst (receive_diagram e fd inp) =
     fd(''requirement'' \<mapsto> requirement inp, ''diagram_type'' \<mapsto> diagram_type inp)"
  by (simp add: receive_diagram_def Let_def)

lemma receive_diagram_echo:
  assumes "snd (receive_diagram e fd inp) = Inr resp"
  shows "resp_requirement resp = requirement inp \<and> resp_diagram_type resp = diagram_type inp"
  using assms by (auto simp: receive_diagram_result split: sum.splits)

lemma sequential_requests_echo:
  assumes "receive_diagram e fd a = (fd', ra)" and "snd (receive_diagram e fd' b) = Inr resp"
  shows "resp_requirement resp = requirement b \<and> resp_diagram_type resp = diagram_type b"
  using assms(2) by (rule receive_diagram_echo)

lemma receive_diagram_store_free:
  "snd (receive_diagram e fd inp) = snd (receive_diagram e Map.empty inp)"
  by (simp add: receive_diagram_result)

lemma run_handlers_Cons:
  "snd (run_handlers fd ((e, inp) # rest)) =
     snd (receive_diagram e fd inp) # snd (run_handlers (fst (receive_diagram e fd inp)) rest)"
  by (simp add: Let_def split_beta)

lemma run_handlers_alone:
  "snd (run_handlers fd reqs) = map (\<lambda>(e, inp). snd (receive_diagram e Map.empty inp)) reqs"
proof (induction reqs arbitrary: fd)
  case Nil
  show ?case by simp
next
  case (Cons q reqs)
  obtain e inp where q: "q = (e, inp)" by (cases q)
  show ?case
    unfolding q run_handlers_Cons Cons.IH
    using receive_diagram_store_free [of e fd inp] by simp
qed

lemma echoes_own: "echoes inp (snd (receive_diagram e fd inp))"
  by (auto simp: echoes_def receive_diagram_result split: sum.splits)

lemma run_handlers_echo:
  "list_all2 (\<lambda>(e, inp) r. echoes inp r) reqs (snd (run_handlers fd reqs))"
  unfolding run_handlers_alone
  by (induction reqs) (auto simp: echoes_own)

lemma run_two_store:
  "fst (run_handlers fd [(e1, a), (e2, b)]) =
     fd(''requirement'' \<mapsto> requirement b, ''diagram_type'' \<mapsto> diagram_type b)"
  by (simp add: Let_def split_beta receive_diagram_store)

text \<open>
  C9 (amended). For any two requests that are processed concurrently, in either order and
  from any state of the dictionary, each caller's response is the one the handler gives to
  that request alone: a success carries that caller's own requirement and diagram type,
  never the other request's; the same holds for every schedule of requests. This is so
  because a handler never suspends and overwrites both inputs before it reads them, not
  because the data is request-local: the inputs are kept in the module-level dictionary
  \<open>fetched_data\<close> under the fixed keys \<open>requirement\<close> and \<open>diagram_type\<close>, where they
  stay after the response until the next request overwrites them.
\<close>

theorem whole_handlers_echo:
  "snd (run_handlers fd [(e1, a), (e2, b)]) =
     [snd (receive_diagram e1 Map.empty a), snd (receive_diagram e2 Map.empty b)] \<and>
   echoes a (snd (receive_diagram e1 Map.empty a)) \<and>
   echoes b (snd (receive_diagram e2 Map.empty b)) \<and>
   snd (run_handlers fd reqs) =
     map (\<lambda>(e, inp). snd (receive_diagram e Map.empty inp)) reqs \<and>
   list_all2 (\<lambda>(e, inp) r. echoes inp r) reqs (snd (run_handlers fd reqs)) \<and>
   fst (run_handlers fd [(e1, a)]) =
     fd(''requirement'' \<mapsto> requirement a, ''diagram_type'' \<mapsto> diagram_type a) \<and>
   fst (run_handlers fd [(e1, a), (e2, b)]) =
     fd(''requirement'' \<mapsto> requirement b, ''diagram_type'' \<mapsto> diagram_type b)"
proof -
  have 1: "snd (run_handlers fd [(e1, a), (e2, b)]) =
     [snd (receive_diagram e1 Map.empty a), snd (receive_diagram e2 Map.empty b)]"
    by (simp only: run_handlers_alone) simp
  have 2: "fst (run_handlers fd [(e1, a)]) =
     fd(''requirement'' \<mapsto> requirement a, ''diagram_type'' \<mapsto> diagram_type a)"
    by (simp add: Let_def split_beta receive_diagram_store)
  from 1 2 echoes_own [of a e1 Map.empty] echoes_own [of b e2 Map.empty]
    run_handlers_alone [of fd reqs] run_handlers_echo [of reqs fd] run_two_store [of fd e1 a e2 b]
  show ?thesis by blast
qed

theorem whole_handlers_echo_witness:
  "map (map_sum id resp_requirement)
     (snd (run_handlers Map.empty
        [(stub_env ''graph TD'', \<lparr>requirement = ''Driver must be alerted'', diagram_type = ''flowchart''\<rparr>),
         (stub_env ''classDiagram'', \<lparr>requirement = ''Doors must lock'', diagram_type = ''class''\<rparr>)])) =
   [Inr ''Driver must be alerted'', Inr ''Doors must lock''] \<and>
   map (map_sum id resp_diagram_type)
     (snd (run_handlers Map.empty
        [(stub_env ''classDiagram'', \<lparr>requirement = ''Doors must lock'', diagram_type = ''class''\<rparr>),
         (stub_env ''graph TD'', \<lparr>requirement = ''Driver must be alerted'', diagram_type = ''flowchart''\<rparr>)])) =
   [Inr ''class'', Inr ''flowchart'']"
proof -
  have a: "map_sum id resp_requirement (snd (receive_diagram (stub_env ''graph TD'') Map.empty
      \<lparr>requirement = ''Driver must be alerted'', diagram_type = ''flowchart''\<rparr>)) =
      Inr ''Driver must be alerted''" by code_simp
  have b: "map_sum id resp_requirement (snd (receive_diagram (stub_env ''classDiagram'') Map.empty
      \<lparr>requirement = ''Doors must lock'', diagram_type = ''class''\<rparr>)) =
      Inr ''Doors must lock''" by code_simp
  have c: "map_sum id resp_diagram_type (snd (receive_diagram (stub_env ''graph TD'') Map.empty
      \<lparr>requirement = ''Driver must be alerted'', diagram_type = ''flowchart''\<rparr>)) =
      Inr ''flowchart''" by code_simp
  have d: "map_sum id resp_diagram_type (snd (receive_diagram (stub_env ''classDiagram'') Map.empty
      \<lparr>requirement = ''Doors must lock'', diagram_type = ''class''\<rparr>)) =
      Inr ''class''" by code_simp
  from whole_handlers_echo [of Map.empty "stub_env ''graph TD''"
      "\<lparr>requirement = ''Driver must be alerted'', diagram_type = ''flowchart''\<rparr>"
      "stub_env ''classDiagram''"
      "\<lparr>requirement = ''Doors must lock'', diagram_type = ''class''\<rparr>" "[]"]
    whole_handlers_echo [of Map.empty "stub_env ''classDiagram''"
      "\<lparr>requirement = ''Doors must lock'', diagram_type = ''class''\<rparr>"
      "stub_env ''graph TD''"
      "\<lparr>requirement = ''Driver must be alerted'', diagram_type = ''flowchart''\<rparr>" "[]"]
    a b c d
  show ?thesis by simp
qed

theorem shared_store_counterexample:
  "fst (receive_diagram (stub_env ''graph TD'') Map.empty
      \<lparr>requirement = ''Driver must be alerted'', diagram_type = ''flowchart''\<rparr>) ''requirement'' =
     Some ''Driver must be alerted'' \<and>
   fst (run_handlers Map.empty
      [(stub_env ''graph TD'', \<lparr>requirement = ''Driver must be alerted'', diagram_type = ''flowchart''\<rparr>),
       (stub_env ''classDiagram'', \<lparr>requirement = ''Doors must lock'', diagram_type = ''class''\<rparr>)])
     ''requirement'' = Some ''Doors must lock'' \<and>
   map_sum id resp_requirement
     (receive_try_body (stub_env ''graph TD'')
        (fst (receive_diagram (stub_env ''classDiagram'') Map.empty
           \<lparr>requirement = ''Doors must lock'', diagram_type = ''class''\<rparr>))) =
     Inr ''Doors must lock''"
  by code_simp

end
